theory Spec2Isabelle
  imports Main
begin

section \<open>JavaScript primitives used by the components\<close>

text \<open>
  The text of a form field is a JavaScript string: a list of UTF-16 code units, whose
  length is the string's \<open>.length\<close>. \<open>js\<close> writes an ASCII literal of the source as
  such a list. Fixed messages, keys and URLs, and texts of the server that are only
  stored and compared, stay plain strings.
\<close>

type_synonym jstring = "nat list"

definition js :: "string \<Rightarrow> jstring" where
  "js s = map of_char s"

text \<open>
  The code units that \<open>String.prototype.trim\<close> strips and that the regular-expression
  class \<open>\s\<close> matches: the WhiteSpace and LineTerminator code points of ECMAScript
  (tab, line feed, vertical tab, form feed, carriage return, space, no-break space,
  U+1680, U+2000 to U+200A, U+2028, U+2029, U+202F, U+205F, U+3000, U+FEFF).
\<close>

definition is_space :: "nat \<Rightarrow> bool" where
  "is_space c =
     (c = 0x09 \<or> c = 0x0A \<or> c = 0x0B \<or> c = 0x0C \<or> c = 0x0D \<or> c = 0x20 \<or> c = 0xA0 \<or>
      c = 0x1680 \<or> (0x2000 \<le> c \<and> c \<le> 0x200A) \<or> c = 0x2028 \<or> c = 0x2029 \<or>
      c = 0x202F \<or> c = 0x205F \<or> c = 0x3000 \<or> c = 0xFEFF)"

definition trim :: "jstring \<Rightarrow> jstring" where
  "trim s = rev (dropWhile is_space (rev (dropWhile is_space s)))"

text \<open>Decimal rendering of a number inside a template literal (\<open>`${response.status}`\<close>).\<close>

fun number_toString :: "nat \<Rightarrow> string" where
  "number_toString n =
     (if n < 10 then [''0123456789'' ! n]
      else number_toString (n div 10) @ [''0123456789'' ! (n mod 10)])"

declare number_toString.simps [simp del]

text \<open>
  \<open>a || b\<close> on a string that may be missing: the empty string and \<open>undefined\<close>
  are both falsy, so the default is taken for either.
\<close>

definition or_default :: "'a list option \<Rightarrow> 'a list \<Rightarrow> 'a list" where
  "or_default v d = (case v of None \<Rightarrow> d | Some m \<Rightarrow> if m = [] then d else m)"

text \<open>
  The regular expression \<open>/^[^\s@]+@[^\s@]+\.[^\s@]+$/\<close> of the RSVP form, which
  matches code unit by code unit. A match splits the string as \<open>a @ b . c\<close> with three
  non-empty parts free of white space and of \<open>@\<close> (code unit 0x40); \<open>b\<close> and \<open>c\<close> may
  themselves contain dots (0x2E), so the dot can be any inner position of the part after
  the \<open>@\<close>.
\<close>

definition email_atom :: "nat \<Rightarrow> bool" where
  "email_atom c = (\<not> is_space c \<and> c \<noteq> 0x40)"

fun has_inner_dot :: "jstring \<Rightarrow> bool" where
  "has_inner_dot (a # b # c # rest) = (b = 0x2E \<or> has_inner_dot (b # c # rest))"
| "has_inner_dot _ = False"

definition emailRegex_test :: "jstring \<Rightarrow> bool" where
  "emailRegex_test s =
     (let a = takeWhile email_atom s; r = dropWhile email_atom s
      in a \<noteq> [] \<and>
         (case r of
            [] \<Rightarrow> False
          | x # d \<Rightarrow> x = 0x40 \<and> list_all email_atom d \<and> has_inner_dot d))"

section \<open>The HTTP interface\<close>

text \<open>
  One \<open>fetch\<close> either rejects (a transport failure, with the message of the thrown
  error) or resolves to a response. \<open>response.ok\<close> is the Fetch API's test for a
  status in 200..299. \<open>response.json()\<close> rejects on a body that is not JSON and
  otherwise yields the parsed payload.
\<close>

datatype 'a body = InvalidJson string | Json 'a

datatype 'a response = Response (status: nat) (body: "'a body")

definition ok :: "'a response \<Rightarrow> bool" where
  "ok r = (200 \<le> status r \<and> status r \<le> 299)"

datatype 'a fetch_outcome = Rejected string | Resolved "'a response"

datatype http_method = GET | POST | PATCH | DELETE

datatype json = JNull | JBool bool | JNum nat | JStr jstring

text \<open>
  A request as the components issue it: method, URL and the JSON object passed to
  \<open>JSON.stringify\<close>, as the list of its keys and values in insertion order.
\<close>

record request =
  req_method :: http_method
  req_url :: string
  req_body :: "(string \<times> json) list"

text \<open>
  What the code after a fetch works with: the error that reaches the \<open>catch\<close>
  block, or the value the \<open>try\<close> block obtained.
\<close>

datatype 'a attempt = Thrown string | Got 'a

section \<open>Resources of the backend\<close>

record rsvp_summary =
  summary_yes :: nat
  summary_no :: nat
  summary_maybe :: nat
  summary_total :: nat

record Event =
  event_id :: nat
  event_title :: string
  event_description :: "jstring option"
  event_location :: "string option"
  event_date :: "string option"
  event_created_at :: "string option"
  event_updated_at :: "string option"
  event_rsvp_summary :: "rsvp_summary option"

record RSVP =
  rsvp_id :: nat
  rsvp_guest_name :: string
  rsvp_guest_email :: string
  rsvp_rsvp_status :: string
  rsvp_note_to_host :: "string option"
  rsvp_created_at :: "string option"

record Task =
  task_id :: nat
  task_event_id :: nat
  task_description :: string
  task_assigned_to :: "string option"
  task_priority :: string
  task_due_date :: "string option"
  task_completed :: bool
  task_created_at :: "string option"
  task_updated_at :: "string option"

record task_summary =
  summary_completed :: nat
  summary_pending :: nat
  summary_high_priority :: nat
  summary_tasks_total :: nat

text \<open>Payloads of \<open>GET /events/{id}/rsvps\<close> and \<open>GET /events/{id}/tasks\<close>;
  a key may be missing, which \<open>data.rsvps || []\<close> and its siblings default.\<close>

record rsvps_payload =
  payload_rsvps :: "RSVP list option"

record tasks_payload =
  payload_tasks :: "Task list option"
  payload_task_summary :: "task_summary option"

text \<open>Payload of a write endpoint: the entity, or an object with an \<open>error\<close> key.\<close>

datatype 'a reply = Reply (reply_error: "string option") (reply_entity: 'a)

text \<open>Calls a component makes on the callbacks its parent passed in.\<close>

datatype callback =
    OnRSVPSuccess RSVP
  | OnRSVPUpdate
  | OnTaskCreated Task
  | OnTaskToggle Task
  | OnTaskUpdate
  | OnTaskUpdated Task
  | OnEventUpdated Event
  | Navigate string

section \<open>EventDetailPage\<close>

record detail_state =
  event :: "Event option"
  loading :: bool
  error :: "string option"
  showRSVPForm :: bool
  rsvps :: "RSVP list"
  rsvpLoading :: bool
  showTaskForm :: bool
  tasks :: "Task list"
  taskSummary :: "task_summary option"
  taskLoading :: bool
  showEditForm :: bool
  deleteLoading :: bool

text \<open>The \<open>useState\<close> initial values.\<close>

definition detail_initial :: detail_state where
  "detail_initial =
     \<lparr> event = None, loading = True, error = None, showRSVPForm = False, rsvps = [],
       rsvpLoading = False, showTaskForm = False, tasks = [], taskSummary = None,
       taskLoading = False, showEditForm = False, deleteLoading = False \<rparr>"

text \<open>
  \<open>fetchEvent\<close>: the part before the \<open>await\<close>, the \<open>try\<close> block once the
  request has concluded, and the \<open>catch\<close>/\<open>finally\<close> blocks applied to the state
  the component has at that moment.
\<close>

definition fetchEvent_begin :: "detail_state \<Rightarrow> detail_state" where
  "fetchEvent_begin s = s\<lparr>loading := True, error := None\<rparr>"

fun fetchEvent_try :: "Event fetch_outcome \<Rightarrow> Event attempt" where
  "fetchEvent_try (Rejected m) = Thrown m"
| "fetchEvent_try (Resolved r) =
     (if \<not> ok r then
        (if status r = 404 then Thrown ''Event not found''
         else Thrown (''HTTP error! status: '' @ number_toString (status r)))
      else (case body r of InvalidJson m \<Rightarrow> Thrown m | Json eventData \<Rightarrow> Got eventData))"

definition fetchEvent_settle :: "detail_state \<Rightarrow> Event fetch_outcome \<Rightarrow> detail_state" where
  "fetchEvent_settle s out =
     (case fetchEvent_try out of
        Got eventData \<Rightarrow> s\<lparr>event := Some eventData\<rparr>
      | Thrown m \<Rightarrow> s\<lparr>error := Some (or_default (Some m) ''Failed to load event'')\<rparr>)
     \<lparr>loading := False\<rparr>"

definition fetchEvent :: "detail_state \<Rightarrow> Event fetch_outcome \<Rightarrow> detail_state" where
  "fetchEvent s out = fetchEvent_settle (fetchEvent_begin s) out"

definition fetchEventRSVPs_begin :: "detail_state \<Rightarrow> detail_state" where
  "fetchEventRSVPs_begin s = s\<lparr>rsvpLoading := True\<rparr>"

fun fetchEventRSVPs_try :: "rsvps_payload fetch_outcome \<Rightarrow> (RSVP list option) attempt" where
  "fetchEventRSVPs_try (Rejected m) = Thrown m"
| "fetchEventRSVPs_try (Resolved r) =
     (if ok r then
        (case body r of
           InvalidJson m \<Rightarrow> Thrown m
         | Json data \<Rightarrow> Got (Some (case payload_rsvps data of None \<Rightarrow> [] | Some l \<Rightarrow> l)))
      else Got None)"

definition fetchEventRSVPs_settle ::
  "detail_state \<Rightarrow> rsvps_payload fetch_outcome \<Rightarrow> detail_state" where
  "fetchEventRSVPs_settle s out =
     (case fetchEventRSVPs_try out of
        Got (Some l) \<Rightarrow> s\<lparr>rsvps := l\<rparr>
      | Got None \<Rightarrow> s
      | Thrown m \<Rightarrow> s)
     \<lparr>rsvpLoading := False\<rparr>"

definition fetchEventRSVPs :: "detail_state \<Rightarrow> rsvps_payload fetch_outcome \<Rightarrow> detail_state" where
  "fetchEventRSVPs s out = fetchEventRSVPs_settle (fetchEventRSVPs_begin s) out"

definition fetchEventTasks_begin :: "detail_state \<Rightarrow> detail_state" where
  "fetchEventTasks_begin s = s\<lparr>taskLoading := True\<rparr>"

fun fetchEventTasks_try :: "tasks_payload fetch_outcome \<Rightarrow> (tasks_payload option) attempt" where
  "fetchEventTasks_try (Rejected m) = Thrown m"
| "fetchEventTasks_try (Resolved r) =
     (if ok r then
        (case body r of InvalidJson m \<Rightarrow> Thrown m | Json data \<Rightarrow> Got (Some data))
      else Got None)"

definition fetchEventTasks_settle ::
  "detail_state \<Rightarrow> tasks_payload fetch_outcome \<Rightarrow> detail_state" where
  "fetchEventTasks_settle s out =
     (case fetchEventTasks_try out of
        Got (Some data) \<Rightarrow>
          s\<lparr>tasks := (case payload_tasks data of None \<Rightarrow> [] | Some l \<Rightarrow> l),
            taskSummary := payload_task_summary data\<rparr>
      | Got None \<Rightarrow> s
      | Thrown m \<Rightarrow> s)
     \<lparr>taskLoading := False\<rparr>"

definition fetchEventTasks :: "detail_state \<Rightarrow> tasks_payload fetch_outcome \<Rightarrow> detail_state" where
  "fetchEventTasks s out = fetchEventTasks_settle (fetchEventTasks_begin s) out"

text \<open>
  What the component returns: the loading container, the error container with its
  text, or the detail container over the loaded event. Reading \<open>event.title\<close> of a
  missing event is a TypeError.
\<close>

datatype detail_view =
    LoadingContainer
  | ErrorContainer string
  | EventDetailContainer Event bool "RSVP list" bool bool "Task list" "task_summary option"
  | RenderTypeError

definition render_detail_container :: "detail_state \<Rightarrow> detail_view" where
  "render_detail_container s =
     (case event s of
        None \<Rightarrow> RenderTypeError
      | Some e \<Rightarrow>
          EventDetailContainer e (showRSVPForm s) (rsvps s) (showEditForm s) (showTaskForm s)
            (tasks s) (taskSummary s))"

definition EventDetailPage_render :: "detail_state \<Rightarrow> detail_view" where
  "EventDetailPage_render s =
     (if loading s then LoadingContainer
      else if or_default (error s) [] \<noteq> [] then ErrorContainer (or_default (error s) [])
      else render_detail_container s)"

text \<open>An attempt failed when the request was rejected or answered with a status
  outside 200..299.\<close>

fun failed :: "'a fetch_outcome \<Rightarrow> bool" where
  "failed (Rejected m) = True"
| "failed (Resolved r) = (\<not> ok r)"

section \<open>EventsPage\<close>

record events_state =
  events :: "Event list"
  events_loading :: bool
  events_error :: "string option"

definition events_initial :: events_state where
  "events_initial = \<lparr> events = [], events_loading = True, events_error = None \<rparr>"

definition fetchEvents_begin :: "events_state \<Rightarrow> events_state" where
  "fetchEvents_begin s = s\<lparr>events_loading := True, events_error := None\<rparr>"

fun fetchEvents_try :: "Event list fetch_outcome \<Rightarrow> (Event list) attempt" where
  "fetchEvents_try (Rejected m) = Thrown m"
| "fetchEvents_try (Resolved r) =
     (if \<not> ok r then Thrown (''HTTP error! status: '' @ number_toString (status r))
      else (case body r of InvalidJson m \<Rightarrow> Thrown m | Json eventsData \<Rightarrow> Got eventsData))"

definition fetchEvents_settle :: "events_state \<Rightarrow> Event list fetch_outcome \<Rightarrow> events_state" where
  "fetchEvents_settle s out =
     (case fetchEvents_try out of
        Got eventsData \<Rightarrow> s\<lparr>events := eventsData\<rparr>
      | Thrown m \<Rightarrow> s\<lparr>events_error := Some ''Failed to load events. Please try again later.''\<rparr>)
     \<lparr>events_loading := False\<rparr>"

definition fetchEvents :: "events_state \<Rightarrow> Event list fetch_outcome \<Rightarrow> events_state" where
  "fetchEvents s out = fetchEvents_settle (fetchEvents_begin s) out"

definition handleRefresh :: "events_state \<Rightarrow> Event list fetch_outcome \<Rightarrow> events_state" where
  "handleRefresh s out = fetchEvents s out"

text \<open>
  The rendered page. \<open>fmt\<close> stands for \<open>toLocaleDateString('en-US', ...)\<close> on the
  parsed date string, which the browser provides.
\<close>

definition formatDate :: "(string \<Rightarrow> string) \<Rightarrow> string option \<Rightarrow> string" where
  "formatDate fmt dateString =
     (if or_default dateString [] = [] then ''No date specified''
      else fmt (or_default dateString []))"

record event_card =
  card_key :: nat
  card_title :: string
  card_date :: string
  card_description :: "jstring option"
  card_location :: "string option"
  card_created :: string

definition render_card :: "(string \<Rightarrow> string) \<Rightarrow> Event \<Rightarrow> event_card" where
  "render_card fmt e =
     \<lparr> card_key = event_id e,
       card_title = event_title e,
       card_date = formatDate fmt (event_date e),
       card_description =
         (let d = or_default (event_description e) []
          in if d = [] then None
             else Some (if length d > 150 then take 150 d @ js ''...'' else d)),
       card_location =
         (let l = or_default (event_location e) [] in if l = [] then None else Some l),
       card_created = formatDate fmt (event_created_at e) \<rparr>"

datatype events_view =
    EventsLoading
  | EventsError string
  | EmptyState
  | EventsGrid "event_card list"

definition render_events_list :: "(string \<Rightarrow> string) \<Rightarrow> Event list \<Rightarrow> events_view" where
  "render_events_list fmt evs =
     (if length evs = 0 then EmptyState else EventsGrid (map (render_card fmt) evs))"

definition EventsPage_render :: "(string \<Rightarrow> string) \<Rightarrow> events_state \<Rightarrow> events_view" where
  "EventsPage_render fmt s =
     (if events_loading s then EventsLoading
      else if or_default (events_error s) [] \<noteq> [] then EventsError (or_default (events_error s) [])
      else render_events_list fmt (events s))"

section \<open>TaskList\<close>

text \<open>
  \<open>isOverdue\<close>. \<open>parse\<close> is \<open>new Date(s).getTime()\<close>, \<open>None\<close> for an invalid
  date (whose comparison with anything is false); \<open>now\<close> is \<open>new Date()\<close> at the
  time of the call, in milliseconds.
\<close>

definition isOverdue :: "(string \<Rightarrow> int option) \<Rightarrow> int \<Rightarrow> Task \<Rightarrow> bool" where
  "isOverdue parse now task =
     (if or_default (task_due_date task) [] = [] \<or> task_completed task then False
      else (case parse (or_default (task_due_date task) []) of
              None \<Rightarrow> False
            | Some t \<Rightarrow> t < now))"

record task_list_state =
  editingTaskId :: "nat option"
  processingTasks :: "nat set"

definition task_list_initial :: task_list_state where
  "task_list_initial = \<lparr> editingTaskId = None, processingTasks = {} \<rparr>"

definition toggle_request :: "nat \<Rightarrow> request" where
  "toggle_request taskId =
     \<lparr> req_method = PATCH,
       req_url = ''http://localhost:5000/tasks/'' @ number_toString taskId @ ''/toggle'',
       req_body = [] \<rparr>"

text \<open>
  \<open>handleTaskToggle\<close> up to its \<open>await\<close>: the guard, the entry in
  \<open>processingTasks\<close> and the request; and from the response on: the callbacks and the
  \<open>finally\<close> block.
\<close>

definition handleTaskToggle_begin :: "task_list_state \<Rightarrow> nat \<Rightarrow> task_list_state \<times> request list" where
  "handleTaskToggle_begin s taskId =
     (if taskId \<in> processingTasks s then (s, [])
      else (s\<lparr>processingTasks := insert taskId (processingTasks s)\<rparr>, [toggle_request taskId]))"

fun handleTaskToggle_callbacks :: "Task reply fetch_outcome \<Rightarrow> callback list" where
  "handleTaskToggle_callbacks (Rejected m) = []"
| "handleTaskToggle_callbacks (Resolved r) =
     (if ok r then
        (case body r of
           InvalidJson m \<Rightarrow> []
         | Json updatedTask \<Rightarrow> [OnTaskToggle (reply_entity updatedTask), OnTaskUpdate])
      else [])"

definition handleTaskToggle_settle ::
  "task_list_state \<Rightarrow> nat \<Rightarrow> Task reply fetch_outcome \<Rightarrow> task_list_state \<times> callback list" where
  "handleTaskToggle_settle s taskId out =
     (s\<lparr>processingTasks := processingTasks s - {taskId}\<rparr>, handleTaskToggle_callbacks out)"

section \<open>RSVPForm\<close>

record rsvp_form_data =
  guest_name :: jstring
  guest_email :: jstring
  rsvp_status :: jstring
  note_to_host :: jstring

record rsvp_form =
  formData :: rsvp_form_data
  isSubmitting :: bool
  submitError :: "string option"
  submitSuccess :: bool
  validationErrors :: "string \<rightharpoonup> string"

definition rsvp_form_empty :: rsvp_form_data where
  "rsvp_form_empty = \<lparr> guest_name = [], guest_email = [], rsvp_status = [], note_to_host = [] \<rparr>"

definition rsvp_form_initial :: rsvp_form where
  "rsvp_form_initial =
     \<lparr> formData = rsvp_form_empty, isSubmitting = False, submitError = None,
       submitSuccess = False, validationErrors = Map.empty \<rparr>"

definition validateForm_errors :: "rsvp_form_data \<Rightarrow> (string \<rightharpoonup> string)" where
  "validateForm_errors fd =
     (let errors = Map.empty;
          errors =
            (if trim (guest_name fd) = [] then errors(''guest_name'' \<mapsto> ''Name is required'')
             else if length (trim (guest_name fd)) < 2
             then errors(''guest_name'' \<mapsto> ''Name must be at least 2 characters'')
             else errors);
          errors =
            (if trim (guest_email fd) = [] then errors(''guest_email'' \<mapsto> ''Email is required'')
             else if \<not> emailRegex_test (trim (guest_email fd))
             then errors(''guest_email'' \<mapsto> ''Please enter a valid email address'')
             else errors);
          errors =
            (if rsvp_status fd = []
             then errors(''rsvp_status'' \<mapsto> ''Please select your RSVP status'')
             else errors);
          errors =
            (if note_to_host fd \<noteq> [] \<and> length (note_to_host fd) > 500
             then errors(''note_to_host'' \<mapsto> ''Note must be less than 500 characters'')
             else errors)
      in errors)"

definition validateForm :: "rsvp_form \<Rightarrow> rsvp_form \<times> bool" where
  "validateForm s =
     (let errors = validateForm_errors (formData s)
      in (s\<lparr>validationErrors := errors\<rparr>, dom errors = {}))"

text \<open>
  The body of the request. \<open>toLowerCase\<close> is \<open>String.prototype.toLowerCase\<close>, the
  case mapping of the JavaScript engine.
\<close>

definition rsvpData ::
  "(jstring \<Rightarrow> jstring) \<Rightarrow> nat \<Rightarrow> rsvp_form_data \<Rightarrow> (string \<times> json) list" where
  "rsvpData toLowerCase eventId fd =
     [(''event_id'', JNum eventId),
      (''guest_name'', JStr (trim (guest_name fd))),
      (''guest_email'', JStr (toLowerCase (trim (guest_email fd)))),
      (''rsvp_status'', JStr (rsvp_status fd)),
      (''note_to_host'', JStr (trim (note_to_host fd)))]"

definition network_error_text :: string where
  "network_error_text = ''Network error. Please check your connection and try again.''"

fun RSVPForm_response :: "rsvp_form \<Rightarrow> RSVP reply fetch_outcome \<Rightarrow> rsvp_form \<times> callback list" where
  "RSVPForm_response s (Rejected m) = (s\<lparr>submitError := Some network_error_text\<rparr>, [])"
| "RSVPForm_response s (Resolved r) =
     (case body r of
        InvalidJson m \<Rightarrow> (s\<lparr>submitError := Some network_error_text\<rparr>, [])
      | Json responseData \<Rightarrow>
          (if \<not> ok r then
             (s\<lparr>submitError := Some
                 (if status r = 409
                  then ''You have already RSVP'' @ [CHR 0x27] @ ''d to this event. Each email can only RSVP once.''
                  else if status r = 404 then ''Event not found. Please try again.''
                  else or_default (reply_error responseData) ''Failed to submit RSVP. Please try again.'')\<rparr>,
              [])
           else
             (s\<lparr>submitSuccess := True, formData := rsvp_form_empty\<rparr>,
              [OnRSVPSuccess (reply_entity responseData), OnRSVPUpdate])))"

text \<open>
  \<open>handleSubmit\<close>: the new state, the requests it issued and the callbacks it made,
  when the network answers a request with \<open>out\<close>.
\<close>

definition RSVPForm_handleSubmit ::
  "(jstring \<Rightarrow> jstring) \<Rightarrow> nat \<Rightarrow> rsvp_form \<Rightarrow> RSVP reply fetch_outcome \<Rightarrow>
   rsvp_form \<times> request list \<times> callback list" where
  "RSVPForm_handleSubmit toLowerCase eventId s out =
     (let s1 = s\<lparr>submitError := None, submitSuccess := False\<rparr>;
          (s2, valid) = validateForm s1
      in if \<not> valid then (s2, [], [])
         else
           (let s3 = s2\<lparr>isSubmitting := True\<rparr>;
                req = \<lparr> req_method = POST, req_url = ''http://localhost:5000/rsvps'',
                        req_body = rsvpData toLowerCase eventId (formData s3) \<rparr>;
                (s4, cbs) = RSVPForm_response s3 out
            in (s4\<lparr>isSubmitting := False\<rparr>, [req], cbs)))"

text \<open>The rules of the RSVP form, field by field, as a submission can break them.\<close>

definition guest_name_violated :: "rsvp_form_data \<Rightarrow> bool" where
  "guest_name_violated fd = (trim (guest_name fd) = [] \<or> length (trim (guest_name fd)) < 2)"

definition guest_email_violated :: "rsvp_form_data \<Rightarrow> bool" where
  "guest_email_violated fd =
     (trim (guest_email fd) = [] \<or> \<not> emailRegex_test (trim (guest_email fd)))"

definition rsvp_status_violated :: "rsvp_form_data \<Rightarrow> bool" where
  "rsvp_status_violated fd = (rsvp_status fd = [])"

definition note_to_host_violated :: "rsvp_form_data \<Rightarrow> bool" where
  "note_to_host_violated fd = (length (note_to_host fd) > 500)"

definition rsvp_valid :: "rsvp_form_data \<Rightarrow> bool" where
  "rsvp_valid fd =
     (\<not> guest_name_violated fd \<and> \<not> guest_email_violated fd \<and> \<not> rsvp_status_violated fd \<and>
      \<not> note_to_host_violated fd)"

text \<open>The \<open>guest_email\<close> of the body, when exactly one request was issued.\<close>

definition submitted_email :: "request list \<Rightarrow> json option" where
  "submitted_email reqs =
     (case reqs of [req] \<Rightarrow> map_of (req_body req) ''guest_email'' | _ \<Rightarrow> None)"

section \<open>Forms validated by a schema\<close>

text \<open>
  The task and event forms hand their fields and a declarative schema to a form library
  and a schema library. Both are third-party packages: the schemas and the
  \<open>handleSubmit\<close> functions are the repository's, the code that runs the tests and
  decides whether \<open>handleSubmit\<close> is called is not among its sources.
\<close>

text \<open>
  Modelled from the spec: the schema library's tests (required, length, range,
  enumeration, date-in-future rules), absent from the sources. A test on a string is
  skipped when the value is absent; \<open>min\<close> and \<open>max\<close> bound the length inclusively,
  \<open>required\<close> fails on an absent value, \<open>oneOf\<close> on a value outside the list. The form
  library passes an empty field as absent. A field's error is the message of its first
  failing test.
\<close>

datatype yup_error = Message string | DefaultTypeError

datatype string_test =
    Min nat string
  | Max nat string
  | Required string
  | OneOf "string list" string

fun string_test_fails :: "string_test \<Rightarrow> jstring \<Rightarrow> bool" where
  "string_test_fails (Min n m) v = (v \<noteq> [] \<and> length v < n)"
| "string_test_fails (Max n m) v = (v \<noteq> [] \<and> length v > n)"
| "string_test_fails (Required m) v = (v = [])"
| "string_test_fails (OneOf vs m) v = (v \<noteq> [] \<and> v \<notin> set (map js vs))"

fun string_test_message :: "string_test \<Rightarrow> string" where
  "string_test_message (Min n m) = m"
| "string_test_message (Max n m) = m"
| "string_test_message (Required m) = m"
| "string_test_message (OneOf vs m) = m"

definition yup_string :: "string_test list \<Rightarrow> jstring \<Rightarrow> yup_error option" where
  "yup_string tests v =
     (case filter (\<lambda>t. string_test_fails t v) tests of
        [] \<Rightarrow> None
      | t # ts \<Rightarrow> Some (Message (string_test_message t)))"

text \<open>
  Modelled from the spec: the schema library's date test, absent from the sources. A
  date schema has an optional \<open>required\<close> message, the bound of \<open>min\<close> with its
  message, and an optional \<open>typeError\<close> message; a date before the bound fails, a
  field that is no date fails with the \<open>typeError\<close> message or the library's own. The
  bound is the \<open>new Date()\<close> that the source passes to \<open>min\<close>, evaluated when the
  schema is built. \<open>schema_parse\<close> is the schema library's own reading of a date
  field, \<open>None\<close> for a field it takes for no date. It is a parameter of its own: the
  library need not read a field as the browser's \<open>new Date(s)\<close> does.
\<close>

record date_schema =
  date_required :: "string option"
  date_min :: "int \<times> string"
  date_typeError :: "string option"

definition yup_date ::
  "(jstring \<Rightarrow> int option) \<Rightarrow> date_schema \<Rightarrow> jstring \<Rightarrow> yup_error option" where
  "yup_date schema_parse sch v =
     (if v = [] then map_option Message (date_required sch)
      else
        (case schema_parse v of
           None \<Rightarrow> Some (case date_typeError sch of None \<Rightarrow> DefaultTypeError | Some m \<Rightarrow> Message m)
         | Some t \<Rightarrow> if t < fst (date_min sch) then Some (Message (snd (date_min sch))) else None))"

datatype form_status = StatusError string | StatusSuccess string

record 'v formik =
  formik_values :: 'v
  formik_errors :: "string \<rightharpoonup> yup_error"
  formik_isSubmitting :: bool
  formik_status :: "form_status option"

text \<open>
  Modelled from the spec: the form library's submission, absent from the sources. On
  submit the field validation runs entirely client-side; if a field is invalid the
  per-field messages are surfaced and the submission stops without a network call;
  otherwise the component's \<open>onSubmit\<close> is called with the values.
\<close>

definition Formik_submitForm ::
  "('v \<Rightarrow> (string \<rightharpoonup> yup_error)) \<Rightarrow>
   (('v, 'm) formik_scheme \<Rightarrow> 'o \<Rightarrow> ('v, 'm) formik_scheme \<times> request list \<times> callback list) \<Rightarrow>
   ('v, 'm) formik_scheme \<Rightarrow> 'o \<Rightarrow> ('v, 'm) formik_scheme \<times> request list \<times> callback list" where
  "Formik_submitForm validate onSubmit s out =
     (let errors = validate (formik_values s)
      in if dom errors = {}
         then onSubmit (s\<lparr>formik_errors := errors, formik_isSubmitting := True\<rparr>) out
         else (s\<lparr>formik_errors := errors, formik_isSubmitting := False\<rparr>, [], []))"

text \<open>\<open>resetForm\<close> of the form library: values, errors and status go back to their
  initial values.\<close>

definition Formik_resetForm :: "'v \<Rightarrow> ('v, 'm) formik_scheme \<Rightarrow> ('v, 'm) formik_scheme" where
  "Formik_resetForm initialValues s =
     s\<lparr>formik_values := initialValues, formik_errors := Map.empty, formik_status := None,
       formik_isSubmitting := False\<rparr>"

text \<open>
  The \<open>try\<close> block of a write once the request has concluded: \<open>response.json()\<close>
  is awaited on either branch, and a status outside 200..299 throws the payload's
  \<open>error\<close> or the default text.
\<close>

fun write_try :: "string \<Rightarrow> 'a reply fetch_outcome \<Rightarrow> 'a attempt" where
  "write_try dflt (Rejected m) = Thrown m"
| "write_try dflt (Resolved r) =
     (case body r of
        InvalidJson m \<Rightarrow> Thrown m
      | Json d \<Rightarrow> if \<not> ok r then Thrown (or_default (reply_error d) dflt) else Got (reply_entity d))"

text \<open>\<open>String.prototype.includes\<close>.\<close>

fun str_includes :: "string \<Rightarrow> string \<Rightarrow> bool" where
  "str_includes [] sub = (sub = [])"
| "str_includes (x # xs) sub = (take (length sub) (x # xs) = sub \<or> str_includes xs sub)"

text \<open>What the browser's \<open>Date\<close> contributes: \<open>new Date(s)\<close> as the instant it
  reads from \<open>s\<close> (\<open>None\<close> for an invalid date), \<open>toISOString\<close>, and the message
  of the RangeError that \<open>toISOString\<close> throws on an invalid date.\<close>

record js_date =
  date_parse :: "jstring \<Rightarrow> int option"
  date_toISOString :: "int \<Rightarrow> jstring"
  date_RangeError :: string

section \<open>NewTaskForm\<close>

record task_values =
  description :: jstring
  assigned_to :: jstring
  priority :: jstring
  due_date :: jstring
  completed :: bool

definition task_initialValues :: task_values where
  "task_initialValues =
     \<lparr> description = [], assigned_to = [], priority = js ''Medium'', due_date = [],
       completed = False \<rparr>"

definition TaskValidationSchema_description :: "string_test list" where
  "TaskValidationSchema_description =
     [Min 5 ''Description must be at least 5 characters'',
      Max 500 ''Description must be less than 500 characters'',
      Required ''Description is required'']"

definition TaskValidationSchema_assigned_to :: "string_test list" where
  "TaskValidationSchema_assigned_to = [Max 100 ''Assigned to must be less than 100 characters'']"

definition TaskValidationSchema_priority :: "string_test list" where
  "TaskValidationSchema_priority =
     [OneOf [''High'', ''Medium'', ''Low''] ''Priority must be High, Medium, or Low'',
      Required ''Priority is required'']"

definition TaskValidationSchema_due_date :: "int \<Rightarrow> date_schema" where
  "TaskValidationSchema_due_date schema_now =
     \<lparr> date_required = None, date_min = (schema_now, ''Due date must be in the future''),
       date_typeError = None \<rparr>"

definition TaskValidationSchema ::
  "(jstring \<Rightarrow> int option) \<Rightarrow> int \<Rightarrow> task_values \<Rightarrow> (string \<rightharpoonup> yup_error)" where
  "TaskValidationSchema schema_parse schema_now v =
     Map.empty
       (''description'' := yup_string TaskValidationSchema_description (description v),
        ''assigned_to'' := yup_string TaskValidationSchema_assigned_to (assigned_to v),
        ''priority'' := yup_string TaskValidationSchema_priority (priority v),
        ''due_date'' := yup_date schema_parse (TaskValidationSchema_due_date schema_now) (due_date v))"

text \<open>
  \<open>handleSubmit\<close> of the new-task form. Building \<open>taskData\<close> can throw (the
  RangeError of \<open>toISOString\<close>); then no request is made and the \<open>catch\<close> block runs.
\<close>

definition NewTaskForm_taskData :: "js_date \<Rightarrow> nat \<Rightarrow> task_values \<Rightarrow> ((string \<times> json) list) attempt" where
  "NewTaskForm_taskData D eventId v =
     (let taskData =
            [(''event_id'', JNum eventId),
             (''description'', JStr (trim (description v))),
             (''assigned_to'', JStr (trim (assigned_to v))),
             (''priority'', JStr (priority v)),
             (''completed'', JBool (completed v))]
      in if due_date v \<noteq> [] then
           (case date_parse D (due_date v) of
              None \<Rightarrow> Thrown (date_RangeError D)
            | Some t \<Rightarrow> Got (taskData @ [(''due_date'', JStr (date_toISOString D t))]))
         else Got taskData)"

fun NewTaskForm_response ::
  "task_values formik \<Rightarrow> Task reply fetch_outcome \<Rightarrow> task_values formik \<times> callback list" where
  "NewTaskForm_response s (Rejected m) =
     (s\<lparr>formik_status := Some (StatusError ''Network error. Please try again.'')\<rparr>, [])"
| "NewTaskForm_response s (Resolved r) =
     (case body r of
        InvalidJson m \<Rightarrow>
          (s\<lparr>formik_status := Some (StatusError ''Network error. Please try again.'')\<rparr>, [])
      | Json responseData \<Rightarrow>
          (if \<not> ok r then
             (s\<lparr>formik_status :=
                  Some (StatusError (or_default (reply_error responseData) ''Failed to create task''))\<rparr>,
              [])
           else
             (Formik_resetForm task_initialValues
                (s\<lparr>formik_status := Some (StatusSuccess ''Task created successfully!'')\<rparr>),
              [OnTaskCreated (reply_entity responseData)])))"

definition NewTaskForm_handleSubmit ::
  "js_date \<Rightarrow> nat \<Rightarrow> task_values formik \<Rightarrow> Task reply fetch_outcome \<Rightarrow>
   task_values formik \<times> request list \<times> callback list" where
  "NewTaskForm_handleSubmit D eventId s out =
     (let s1 = s\<lparr>formik_status := None\<rparr>
      in case NewTaskForm_taskData D eventId (formik_values s1) of
           Thrown m \<Rightarrow>
             (s1\<lparr>formik_status := Some (StatusError ''Network error. Please try again.''),
                 formik_isSubmitting := False\<rparr>, [], [])
         | Got taskData \<Rightarrow>
             (let req = \<lparr> req_method = POST, req_url = ''http://localhost:5000/tasks'',
                          req_body = taskData \<rparr>;
                  (s2, cbs) = NewTaskForm_response s1 out
              in (s2\<lparr>formik_isSubmitting := False\<rparr>, [req], cbs)))"

text \<open>
  Submitting the form: the schema is run with the schema library's reading of dates and
  the bound fixed when the schema was built, the handler with the browser's \<open>Date\<close>.
\<close>

definition NewTaskForm_submit ::
  "js_date \<Rightarrow> (jstring \<Rightarrow> int option) \<Rightarrow> int \<Rightarrow> nat \<Rightarrow> task_values formik \<Rightarrow>
   Task reply fetch_outcome \<Rightarrow> task_values formik \<times> request list \<times> callback list" where
  "NewTaskForm_submit D schema_parse schema_now eventId s out =
     Formik_submitForm (TaskValidationSchema schema_parse schema_now)
       (NewTaskForm_handleSubmit D eventId) s out"

definition task_form_initial :: "task_values formik" where
  "task_form_initial =
     \<lparr> formik_values = task_initialValues, formik_errors = Map.empty,
       formik_isSubmitting = False, formik_status = None \<rparr>"

section \<open>EditTaskForm\<close>

record edit_task_values =
  edit_description :: jstring
  edit_priority :: jstring
  edit_assigned_to :: jstring
  edit_due_date :: jstring

definition EditTask_schema_description :: "string_test list" where
  "EditTask_schema_description =
     [Required ''Task description is required'',
      Min 3 ''Description must be at least 3 characters'',
      Max 500 ''Description must be less than 500 characters'']"

definition EditTask_schema_priority :: "string_test list" where
  "EditTask_schema_priority =
     [Required ''Priority is required'',
      OneOf [''Low'', ''Medium'', ''High''] ''Priority must be Low, Medium, or High'']"

definition EditTask_schema_assigned_to :: "string_test list" where
  "EditTask_schema_assigned_to = [Max 100 ''Assigned to must be less than 100 characters'']"

definition EditTask_schema_due_date :: "int \<Rightarrow> date_schema" where
  "EditTask_schema_due_date schema_now =
     \<lparr> date_required = None, date_min = (schema_now, ''Due date cannot be in the past''),
       date_typeError = None \<rparr>"

definition EditTask_validationSchema ::
  "(jstring \<Rightarrow> int option) \<Rightarrow> int \<Rightarrow> edit_task_values \<Rightarrow> (string \<rightharpoonup> yup_error)" where
  "EditTask_validationSchema schema_parse schema_now v =
     Map.empty
       (''description'' := yup_string EditTask_schema_description (edit_description v),
        ''priority'' := yup_string EditTask_schema_priority (edit_priority v),
        ''assigned_to'' := yup_string EditTask_schema_assigned_to (edit_assigned_to v),
        ''due_date'' := yup_date schema_parse (EditTask_schema_due_date schema_now) (edit_due_date v))"

definition EditTaskForm_taskData :: "nat \<Rightarrow> edit_task_values \<Rightarrow> (string \<times> json) list" where
  "EditTaskForm_taskData eventId v =
     [(''description'', JStr (trim (edit_description v))),
      (''priority'', JStr (edit_priority v)),
      (''assigned_to'',
         (if trim (edit_assigned_to v) = [] then JNull else JStr (trim (edit_assigned_to v)))),
      (''due_date'', (if edit_due_date v = [] then JNull else JStr (edit_due_date v))),
      (''event_id'', JNum eventId)]"

definition EditTaskForm_handleSubmit ::
  "nat \<Rightarrow> nat \<Rightarrow> edit_task_values formik \<Rightarrow> Task reply fetch_outcome \<Rightarrow>
   edit_task_values formik \<times> request list \<times> callback list" where
  "EditTaskForm_handleSubmit taskId eventId s out =
     (let s1 = s\<lparr>formik_status := None\<rparr>;
          req = \<lparr> req_method = PATCH,
                  req_url = ''http://localhost:5000/tasks/'' @ number_toString taskId,
                  req_body = EditTaskForm_taskData eventId (formik_values s1) \<rparr>
      in case write_try ''Failed to update task'' out of
           Got updatedTask \<Rightarrow>
             (s1\<lparr>formik_status := Some (StatusSuccess ''Task updated successfully!''),
                 formik_isSubmitting := False\<rparr>,
              [req], [OnTaskUpdated updatedTask])
         | Thrown m \<Rightarrow>
             (s1\<lparr>formik_status :=
                    Some (StatusError (or_default (Some m) ''Failed to update task. Please try again.'')),
                 formik_isSubmitting := False\<rparr>,
              [req], []))"

definition EditTaskForm_submit ::
  "(jstring \<Rightarrow> int option) \<Rightarrow> int \<Rightarrow> nat \<Rightarrow> nat \<Rightarrow> edit_task_values formik \<Rightarrow>
   Task reply fetch_outcome \<Rightarrow> edit_task_values formik \<times> request list \<times> callback list" where
  "EditTaskForm_submit schema_parse schema_now taskId eventId s out =
     Formik_submitForm (EditTask_validationSchema schema_parse schema_now)
       (EditTaskForm_handleSubmit taskId eventId) s out"

section \<open>NewEventForm and EditEventForm\<close>

record event_values =
  form_title :: jstring
  form_description :: jstring
  form_location :: jstring
  form_date :: jstring

record 'v event_form = "'v formik" +
  event_submitError :: "string option"

definition Event_schema_title :: "string_test list" where
  "Event_schema_title =
     [Required ''Title is required'',
      Min 3 ''Title must be at least 3 characters'',
      Max 200 ''Title must be less than 200 characters'']"

definition Event_schema_description :: "string_test list" where
  "Event_schema_description = [Max 1000 ''Description must be less than 1000 characters'']"

definition Event_schema_location :: "string_test list" where
  "Event_schema_location = [Max 300 ''Location must be less than 300 characters'']"

definition Event_schema_date :: "int \<Rightarrow> date_schema" where
  "Event_schema_date schema_now =
     \<lparr> date_required = Some ''Date is required'',
       date_min = (schema_now, ''Date must be in the future''),
       date_typeError = Some ''Please enter a valid date'' \<rparr>"

definition Event_validationSchema ::
  "(jstring \<Rightarrow> int option) \<Rightarrow> int \<Rightarrow> event_values \<Rightarrow> (string \<rightharpoonup> yup_error)" where
  "Event_validationSchema schema_parse schema_now v =
     Map.empty
       (''title'' := yup_string Event_schema_title (form_title v),
        ''description'' := yup_string Event_schema_description (form_description v),
        ''location'' := yup_string Event_schema_location (form_location v),
        ''date'' := yup_date schema_parse (Event_schema_date schema_now) (form_date v))"

definition eventData :: "js_date \<Rightarrow> event_values \<Rightarrow> ((string \<times> json) list) attempt" where
  "eventData D v =
     (case date_parse D (form_date v) of
        None \<Rightarrow> Thrown (date_RangeError D)
      | Some t \<Rightarrow>
          Got [(''title'', JStr (form_title v)),
               (''description'', JStr (form_description v)),
               (''location'', JStr (form_location v)),
               (''date'', JStr (date_toISOString D t))])"

text \<open>The \<open>catch\<close> and \<open>finally\<close> blocks shared by the two event forms.\<close>

definition event_form_catch ::
  "string \<Rightarrow> event_values event_form \<Rightarrow> string \<Rightarrow> event_values event_form" where
  "event_form_catch dflt s m =
     (let s1 = s\<lparr>event_submitError := Some (or_default (Some m) dflt)\<rparr>;
          s2 = (if str_includes m ''title''
                then s1\<lparr>formik_errors := (formik_errors s1)(''title'' \<mapsto> Message m)\<rparr>
                else if str_includes m ''date''
                then s1\<lparr>formik_errors := (formik_errors s1)(''date'' \<mapsto> Message m)\<rparr>
                else s1)
      in s2\<lparr>formik_isSubmitting := False\<rparr>)"

definition NewEventForm_handleSubmit ::
  "js_date \<Rightarrow> event_values event_form \<Rightarrow> Event reply fetch_outcome \<Rightarrow>
   event_values event_form \<times> request list \<times> callback list" where
  "NewEventForm_handleSubmit D s out =
     (let s1 = s\<lparr>event_submitError := None\<rparr>
      in case eventData D (formik_values s1) of
           Thrown m \<Rightarrow>
             (event_form_catch ''Failed to create event. Please try again.'' s1 m, [], [])
         | Got data \<Rightarrow>
             (let req = \<lparr> req_method = POST, req_url = ''http://localhost:5000/events'',
                          req_body = data \<rparr>
              in case write_try ''Failed to create event'' out of
                   Thrown m \<Rightarrow>
                     (event_form_catch ''Failed to create event. Please try again.'' s1 m, [req], [])
                 | Got createdEvent \<Rightarrow>
                     (s1\<lparr>formik_isSubmitting := False\<rparr>, [req], [Navigate ''/''])))"

definition NewEventForm_submit ::
  "js_date \<Rightarrow> (jstring \<Rightarrow> int option) \<Rightarrow> int \<Rightarrow> event_values event_form \<Rightarrow>
   Event reply fetch_outcome \<Rightarrow> event_values event_form \<times> request list \<times> callback list" where
  "NewEventForm_submit D schema_parse schema_now s out =
     Formik_submitForm (Event_validationSchema schema_parse schema_now)
       (NewEventForm_handleSubmit D) s out"

definition EditEventForm_handleSubmit ::
  "js_date \<Rightarrow> nat \<Rightarrow> event_values event_form \<Rightarrow> Event reply fetch_outcome \<Rightarrow>
   event_values event_form \<times> request list \<times> callback list" where
  "EditEventForm_handleSubmit D eventId s out =
     (let s1 = s\<lparr>event_submitError := None\<rparr>
      in case eventData D (formik_values s1) of
           Thrown m \<Rightarrow>
             (event_form_catch ''Failed to update event. Please try again.'' s1 m, [], [])
         | Got data \<Rightarrow>
             (let req = \<lparr> req_method = PATCH,
                          req_url = ''http://localhost:5000/events/'' @ number_toString eventId,
                          req_body = data \<rparr>
              in case write_try ''Failed to update event'' out of
                   Thrown m \<Rightarrow>
                     (event_form_catch ''Failed to update event. Please try again.'' s1 m, [req], [])
                 | Got updatedEvent \<Rightarrow>
                     (s1\<lparr>formik_isSubmitting := False\<rparr>, [req], [OnEventUpdated updatedEvent])))"

definition EditEventForm_submit ::
  "js_date \<Rightarrow> (jstring \<Rightarrow> int option) \<Rightarrow> int \<Rightarrow> nat \<Rightarrow> event_values event_form \<Rightarrow>
   Event reply fetch_outcome \<Rightarrow> event_values event_form \<times> request list \<times> callback list" where
  "EditEventForm_submit D schema_parse schema_now eventId s out =
     Formik_submitForm (Event_validationSchema schema_parse schema_now)
       (EditEventForm_handleSubmit D eventId) s out"

section \<open>Sample values\<close>

definition sample_event :: Event where
  "sample_event =
     \<lparr> event_id = 7, event_title = ''Launch party'', event_description = Some (js ''Drinks''),
       event_location = Some ''Roof'', event_date = Some ''2030-05-01T18:00:00'',
       event_created_at = Some ''2029-01-01T09:00:00'', event_updated_at = None,
       event_rsvp_summary = None \<rparr>"

definition sample_rsvp :: RSVP where
  "sample_rsvp =
     \<lparr> rsvp_id = 1, rsvp_guest_name = ''Ann'', rsvp_guest_email = ''ann@example.com'',
       rsvp_rsvp_status = ''Yes'', rsvp_note_to_host = None, rsvp_created_at = None \<rparr>"

definition sample_task :: Task where
  "sample_task =
     \<lparr> task_id = 3, task_event_id = 7, task_description = ''Order the cake'',
       task_assigned_to = None, task_priority = ''High'',
       task_due_date = Some ''2030-04-30T12:00'', task_completed = False,
       task_created_at = None, task_updated_at = None \<rparr>"

text \<open>A reading of due dates for \<open>isOverdue\<close> that knows two strings.\<close>

definition sample_parse :: "string \<Rightarrow> int option" where
  "sample_parse s =
     (if s = ''2030-04-30T12:00'' then Some 1903780800000
      else if s = ''2020-01-01T00:00'' then Some 1577836800000
      else None)"

text \<open>
  A browser \<open>Date\<close> that reads two fields of a \<open>datetime-local\<close> control and takes
  the hour 25 for an invalid date, and a schema library that reads the same two fields to
  the same instants and carries the hour 25 over into the next day.
\<close>

definition sample_date_parse :: "jstring \<Rightarrow> int option" where
  "sample_date_parse s =
     (if s = js ''2030-04-30T12:00'' then Some 1903780800000
      else if s = js ''2030-01-01T00:10'' then Some 1893456600000
      else None)"

definition sample_date :: js_date where
  "sample_date =
     \<lparr> date_parse = sample_date_parse,
       date_toISOString =
         (\<lambda>t. if t = 1903780800000 then js ''2030-04-30T12:00:00.000Z''
              else if t = 1893456600000 then js ''2030-01-01T00:10:00.000Z''
              else []),
       date_RangeError = ''Invalid time value'' \<rparr>"

definition sample_schema_parse :: "jstring \<Rightarrow> int option" where
  "sample_schema_parse s =
     (if s = js ''2030-04-30T25:00'' then Some 1903827600000 else sample_date_parse s)"

text \<open>The instant at which the module of the new-task form was loaded (2030-01-01T00:00Z),
  and the instant, half an hour later, at which the form is submitted.\<close>

definition module_loaded_at :: int where
  "module_loaded_at = 1893456000000"

definition submitted_at :: int where
  "submitted_at = 1893457800000"

text \<open>A case mapping that folds the ASCII and the Latin-1 capitals, as
  \<open>toLowerCase\<close> does on such text.\<close>

definition sample_toLowerCase :: "jstring \<Rightarrow> jstring" where
  "sample_toLowerCase s =
     map (\<lambda>c. if (0x41 \<le> c \<and> c \<le> 0x5A) \<or> (0xC0 \<le> c \<and> c \<le> 0xDE \<and> c \<noteq> 0xD7)
              then c + 0x20 else c) s"

definition loaded_detail :: detail_state where
  "loaded_detail = detail_initial\<lparr>event := Some sample_event, loading := False, rsvps := [sample_rsvp]\<rparr>"

text \<open>RSVP forms: one that breaks every rule (its name is one letter between no-break
  spaces), one with capitals in the email (the first an A with grave, U+00C0), and one
  with the same email in small letters between a no-break space and spaces.\<close>

definition bad_form :: rsvp_form where
  "bad_form =
     rsvp_form_initial\<lparr>formData :=
       \<lparr> guest_name = [0xA0] @ js ''A'' @ [0xA0], guest_email = js ''ann@example'',
         rsvp_status = [], note_to_host = replicate 501 0x78 \<rparr>\<rparr>"

definition upper_form :: rsvp_form where
  "upper_form =
     rsvp_form_initial\<lparr>formData :=
       \<lparr> guest_name = js ''Ann'', guest_email = [0xC0] @ js ''nn@Example.COM'',
         rsvp_status = js ''Yes'', note_to_host = [] \<rparr>\<rparr>"

definition padded_form :: rsvp_form where
  "padded_form =
     rsvp_form_initial\<lparr>formData :=
       \<lparr> guest_name = js ''Ann'', guest_email = [0xA0, 0x20] @ [0xE0] @ js ''nn@example.com '',
         rsvp_status = js ''Maybe'', note_to_host = [] \<rparr>\<rparr>"

text \<open>Task and event forms: a description of four characters; a valid task, its
  description between a no-break space and spaces; a task whose due date lies between the
  loading of the module and the submission; a task and an event whose date has the hour
  25.\<close>

definition short_task_form :: "task_values formik" where
  "short_task_form =
     task_form_initial\<lparr>formik_values := task_initialValues\<lparr>description := js ''abcd''\<rparr>\<rparr>"

definition good_task_form :: "task_values formik" where
  "good_task_form =
     task_form_initial\<lparr>formik_values :=
       \<lparr> description = [0xA0] @ js '' Order the cake  '', assigned_to = js '' Bob '',
         priority = js ''High'', due_date = js ''2030-04-30T12:00'', completed = False \<rparr>\<rparr>"

definition stale_task_form :: "task_values formik" where
  "stale_task_form =
     task_form_initial\<lparr>formik_values :=
       \<lparr> description = js ''Order the cake'', assigned_to = [], priority = js ''Medium'',
         due_date = js ''2030-01-01T00:10'', completed = False \<rparr>\<rparr>"



section \<open>The task list on the detail page\<close>

text \<open>
  The detail page renders \<open>TaskList\<close> inside the detail container, and only when there
  are tasks or a summary. While the page shows its loading or error container the task
  list is not part of the tree: its state is discarded, and the next time it is rendered
  it starts again from its \<open>useState\<close> initial values.
\<close>

definition TaskList_mounted :: "detail_state \<Rightarrow> bool" where
  "TaskList_mounted s =
     (case EventDetailPage_render s of
        EventDetailContainer e sr rs se st ts sm \<Rightarrow> ts \<noteq> [] \<or> sm \<noteq> None
      | _ \<Rightarrow> False)"

text \<open>
  The page between events: its own state, the state of the task list when one is mounted,
  the number of task lists mounted so far, and the toggle requests that were sent and
  have not been answered, each with the mount that sent it and its task id. A click runs
  \<open>handleTaskToggle\<close> up to its \<open>await\<close> against the state committed by the events
  before it; an answer can only arrive for an outstanding request, and its \<open>finally\<close>
  block updates the task list that sent the request if that one is still mounted. Any
  handler of the page (\<open>fetchEvent\<close> before and after its \<open>await\<close>, the callbacks
  the task list calls) is an update of the page's state, after which the tree is
  reconciled.
\<close>

record page_system =
  page :: detail_state
  task_list :: "task_list_state option"
  mounts :: nat
  outstanding :: "(nat \<times> nat) list"

datatype page_event =
    ToggleClick nat
  | ToggleAnswer nat nat "Task reply fetch_outcome"
  | PageUpdate "detail_state \<Rightarrow> detail_state"

definition reconcile :: "page_system \<Rightarrow> page_system" where
  "reconcile st =
     (if TaskList_mounted (page st) then
        (case task_list st of
           None \<Rightarrow> st\<lparr>task_list := Some task_list_initial, mounts := Suc (mounts st)\<rparr>
         | Some t \<Rightarrow> st)
      else st\<lparr>task_list := None\<rparr>)"

fun page_step :: "page_system \<Rightarrow> page_event \<Rightarrow> page_system" where
  "page_step st (ToggleClick taskId) =
     (case task_list st of
        None \<Rightarrow> st
      | Some t \<Rightarrow>
          (case handleTaskToggle_begin t taskId of
             (t', reqs) \<Rightarrow>
               st\<lparr>task_list := Some t',
                  outstanding := outstanding st @ map (\<lambda>r. (mounts st, taskId)) reqs\<rparr>))"
| "page_step st (ToggleAnswer i taskId out) =
     (if (i, taskId) \<in> set (outstanding st)
      then st\<lparr>task_list :=
                (if i = mounts st
                 then map_option (\<lambda>t. fst (handleTaskToggle_settle t taskId out)) (task_list st)
                 else task_list st),
              outstanding := remove1 (i, taskId) (outstanding st)\<rparr>
      else st)"
| "page_step st (PageUpdate f) = reconcile (st\<lparr>page := f (page st)\<rparr>)"

definition page_loaded :: page_system where
  "page_loaded =
     \<lparr> page = loaded_detail\<lparr>tasks := [sample_task]\<rparr>, task_list = Some task_list_initial,
       mounts = 1, outstanding = [] \<rparr>"

definition page_run :: "page_event list \<Rightarrow> page_system" where
  "page_run evs = foldl page_step page_loaded evs"

definition page_inv :: "page_system \<Rightarrow> bool" where
  "page_inv st =
     (distinct (outstanding st) \<and>
      list_all (\<lambda>(i, taskId). i \<le> mounts st) (outstanding st) \<and>
      (case task_list st of
         None \<Rightarrow> True
       | Some t \<Rightarrow> processingTasks t = {taskId. (mounts st, taskId) \<in> set (outstanding st)}))"

section \<open>Reading: the fetch lifecycle\<close>

lemma fetchEvent_try_failed: "failed out \<Longrightarrow> \<exists>m. fetchEvent_try out = Thrown m"
  by (cases out) auto

lemma or_default_nonempty: "d \<noteq> [] \<Longrightarrow> or_default v d \<noteq> []"
  by (simp add: or_default_def split: option.splits)

lemma fetchEvent_twice: "fetchEvent (fetchEvent d out) out = fetchEvent d out"
  by (cases "fetchEvent_try out")
     (simp_all add: fetchEvent_def fetchEvent_settle_def fetchEvent_begin_def)

lemma fetchEvents_twice: "fetchEvents (fetchEvents s out) out = fetchEvents s out"
  by (cases "fetchEvents_try out")
     (simp_all add: fetchEvents_def fetchEvents_settle_def fetchEvents_begin_def)

text \<open>
  C1. When \<open>GET /events/{id}\<close> is answered with status 404, \<open>fetchEvent\<close> leaves
  the error state at exactly \<open>Event not found\<close> and the page renders the error
  container with that text, not the detail container. For any other status outside
  200..299 the error state is \<open>HTTP error! status: \<close> followed by the decimal status
  code, and again the error container is what is rendered.
\<close>

theorem fetchEvent_error_state:
  "(status r = 404 \<longrightarrow>
      error (fetchEvent s (Resolved r)) = Some ''Event not found'' \<and>
      EventDetailPage_render (fetchEvent s (Resolved r)) = ErrorContainer ''Event not found'') \<and>
   (\<not> ok r \<and> status r \<noteq> 404 \<longrightarrow>
      error (fetchEvent s (Resolved r)) =
        Some (''HTTP error! status: '' @ number_toString (status r)) \<and>
      EventDetailPage_render (fetchEvent s (Resolved r)) =
        ErrorContainer (''HTTP error! status: '' @ number_toString (status r)))"
  by (simp add: fetchEvent_def fetchEvent_settle_def fetchEvent_begin_def ok_def or_default_def
      EventDetailPage_render_def)

theorem fetchEvent_error_state_witness:
  "error (fetchEvent loaded_detail (Resolved (Response 404 (InvalidJson [])))) =
     Some ''Event not found'' \<and>
   EventDetailPage_render (fetchEvent loaded_detail (Resolved (Response 404 (InvalidJson [])))) =
     ErrorContainer ''Event not found'' \<and>
   error (fetchEvent loaded_detail (Resolved (Response 500 (InvalidJson [])))) =
     Some ''HTTP error! status: 500'' \<and>
   EventDetailPage_render (fetchEvent loaded_detail (Resolved (Response 500 (InvalidJson [])))) =
     ErrorContainer ''HTTP error! status: 500''"
  using fetchEvent_error_state [of "Response 404 (InvalidJson [])" loaded_detail]
    fetchEvent_error_state [of "Response 500 (InvalidJson [])" loaded_detail]
  by (simp add: ok_def number_toString.simps)

text \<open>
  C4, as the code has it. When a read fails (a rejected request or a status outside
  200..299), \<open>fetchEvent\<close> stores a non-empty message in the error state and
  \<open>fetchEvents\<close> stores its fixed message; both leave the data they hold as it was
  before the attempt. \<open>fetchEventRSVPs\<close> and \<open>fetchEventTasks\<close> store no message:
  they leave the error state, the RSVP list, the task list and the task summary as they
  were.
\<close>

theorem failed_read_fetch:
  assumes "failed out" and "failed out_r" and "failed out_t" and "failed out_e"
  shows "(\<exists>m. error (fetchEvent s out) = Some m \<and> m \<noteq> []) \<and>
     event (fetchEvent s out) = event s \<and>
     error (fetchEventRSVPs s out_r) = error s \<and>
     rsvps (fetchEventRSVPs s out_r) = rsvps s \<and>
     error (fetchEventTasks s out_t) = error s \<and>
     tasks (fetchEventTasks s out_t) = tasks s \<and>
     taskSummary (fetchEventTasks s out_t) = taskSummary s \<and>
     events_error (fetchEvents es out_e) = Some ''Failed to load events. Please try again later.'' \<and>
     events (fetchEvents es out_e) = events es"
proof -
  from assms(1) obtain m where m: "fetchEvent_try out = Thrown m"
    using fetchEvent_try_failed by blast
  have ev: "(\<exists>m. error (fetchEvent s out) = Some m \<and> m \<noteq> []) \<and> event (fetchEvent s out) = event s"
    using m
    by (simp add: fetchEvent_def fetchEvent_settle_def fetchEvent_begin_def or_default_nonempty)
  have rs: "error (fetchEventRSVPs s out_r) = error s \<and> rsvps (fetchEventRSVPs s out_r) = rsvps s"
    using assms(2)
    by (cases out_r)
       (simp_all add: fetchEventRSVPs_def fetchEventRSVPs_settle_def fetchEventRSVPs_begin_def)
  have ts: "error (fetchEventTasks s out_t) = error s \<and> tasks (fetchEventTasks s out_t) = tasks s \<and>
      taskSummary (fetchEventTasks s out_t) = taskSummary s"
    using assms(3)
    by (cases out_t)
       (simp_all add: fetchEventTasks_def fetchEventTasks_settle_def fetchEventTasks_begin_def)
  have es: "events_error (fetchEvents es out_e) = Some ''Failed to load events. Please try again later.'' \<and>
      events (fetchEvents es out_e) = events es"
    using assms(4)
    by (cases out_e) (simp_all add: fetchEvents_def fetchEvents_settle_def fetchEvents_begin_def)
  from ev rs ts es show ?thesis by blast
qed

theorem failed_read_fetch_witness:
  "(\<exists>m. error (fetchEvent loaded_detail (Rejected ''Failed to fetch'')) = Some m \<and> m \<noteq> []) \<and>
   event (fetchEvent loaded_detail (Rejected ''Failed to fetch'')) = Some sample_event \<and>
   error (fetchEventRSVPs loaded_detail (Resolved (Response 500 (InvalidJson [])))) = None \<and>
   rsvps (fetchEventRSVPs loaded_detail (Resolved (Response 500 (InvalidJson [])))) = [sample_rsvp] \<and>
   tasks (fetchEventTasks loaded_detail (Rejected ''Failed to fetch'')) = [] \<and>
   events (fetchEvents events_initial (Resolved (Response 503 (InvalidJson [])))) = []"
  using failed_read_fetch [of "Rejected ''Failed to fetch''" "Resolved (Response 500 (InvalidJson []))"
      "Rejected ''Failed to fetch''" "Resolved (Response 503 (InvalidJson []))"
      loaded_detail events_initial]
  by (simp add: ok_def loaded_detail_def detail_initial_def events_initial_def)

text \<open>
  The claim C4 as worded does not hold: after a failed RSVP fetch (status 500) on a page
  that shows one RSVP, no error message is stored and the RSVP list is not empty.
\<close>

theorem failed_rsvp_fetch_counterexample:
  "failed (Resolved (Response 500 (InvalidJson [])) :: rsvps_payload fetch_outcome) \<and>
   error (fetchEventRSVPs loaded_detail (Resolved (Response 500 (InvalidJson [])))) = None \<and>
   rsvps (fetchEventRSVPs loaded_detail (Resolved (Response 500 (InvalidJson [])))) \<noteq> []"
  by (simp add: fetchEventRSVPs_def fetchEventRSVPs_settle_def fetchEventRSVPs_begin_def ok_def
      loaded_detail_def detail_initial_def)

text \<open>
  C5. Every read sets its loading flag before the request and clears it when the attempt
  concludes, whatever the outcome (a payload, a status outside 200..299, a body that is
  not JSON, a rejected request) and whatever state the component is in at that moment:
  \<open>loading\<close> for \<open>fetchEvent\<close>, \<open>rsvpLoading\<close> for \<open>fetchEventRSVPs\<close>,
  \<open>taskLoading\<close> for \<open>fetchEventTasks\<close> and the events page's flag for
  \<open>fetchEvents\<close>.
\<close>

theorem loading_flag_cleared:
  "loading (fetchEvent_begin s) = True \<and>
   loading (fetchEvent_settle s out) = False \<and>
   loading (fetchEvent s out) = False \<and>
   rsvpLoading (fetchEventRSVPs_settle s out_r) = False \<and>
   rsvpLoading (fetchEventRSVPs s out_r) = False \<and>
   taskLoading (fetchEventTasks_settle s out_t) = False \<and>
   taskLoading (fetchEventTasks s out_t) = False \<and>
   events_loading (fetchEvents_begin es) = True \<and>
   events_loading (fetchEvents_settle es out_e) = False \<and>
   events_loading (fetchEvents es out_e) = False"
  by (simp add: fetchEvent_def fetchEvent_begin_def fetchEvent_settle_def
      fetchEventRSVPs_def fetchEventRSVPs_settle_def
      fetchEventTasks_def fetchEventTasks_settle_def
      fetchEvents_def fetchEvents_begin_def fetchEvents_settle_def)

text \<open>
  C8. Refreshing twice against the same backend answer renders the same page as
  refreshing once, on the events page (\<open>handleRefresh\<close>) and for the retry of the detail
  page (\<open>fetchEvent\<close>); and after a successful refresh the events page is a function of
  the payload alone, whatever the state before.
\<close>

theorem refresh_idempotent:
  "EventsPage_render fmt (handleRefresh (handleRefresh s out) out) =
     EventsPage_render fmt (handleRefresh s out) \<and>
   EventDetailPage_render (fetchEvent (fetchEvent d out_d) out_d) =
     EventDetailPage_render (fetchEvent d out_d) \<and>
   (ok r \<and> body r = Json evs \<longrightarrow>
      EventsPage_render fmt (handleRefresh s (Resolved r)) = render_events_list fmt evs)"
proof -
  have "ok r \<and> body r = Json evs \<longrightarrow>
      EventsPage_render fmt (handleRefresh s (Resolved r)) = render_events_list fmt evs"
    by (simp add: handleRefresh_def fetchEvents_def fetchEvents_settle_def fetchEvents_begin_def
        EventsPage_render_def or_default_def)
  then show ?thesis
    by (simp add: handleRefresh_def fetchEvents_twice fetchEvent_twice)
qed

theorem refresh_idempotent_witness:
  "EventsPage_render (\<lambda>d. d) (handleRefresh events_initial (Resolved (Response 200 (Json [sample_event])))) =
     EventsGrid [render_card (\<lambda>d. d) sample_event] \<and>
   EventsPage_render (\<lambda>d. d)
     (handleRefresh (handleRefresh events_initial (Resolved (Response 200 (Json [sample_event]))))
        (Resolved (Response 200 (Json [sample_event])))) =
     EventsGrid [render_card (\<lambda>d. d) sample_event]"
  using refresh_idempotent [of "\<lambda>d. d" events_initial "Resolved (Response 200 (Json [sample_event]))"
      loaded_detail "Rejected []" "Response 200 (Json [sample_event])" "[sample_event]"]
  by (simp add: ok_def render_events_list_def)

section \<open>TaskList: overdue tasks and the completion toggle\<close>

text \<open>
  C7. \<open>isOverdue\<close> is true exactly when the task has a due date, that date parses to
  an instant strictly before the current time, and the task is not completed. With no due
  date, or with \<open>completed\<close> true, it is false.
\<close>

theorem isOverdue_iff:
  "isOverdue parse now task =
     ((\<exists>d t. task_due_date task = Some d \<and> d \<noteq> [] \<and> parse d = Some t \<and> t < now) \<and>
      \<not> task_completed task) \<and>
   (task_due_date task = None \<longrightarrow> \<not> isOverdue parse now task) \<and>
   (task_completed task \<longrightarrow> \<not> isOverdue parse now task)"
  by (auto simp: isOverdue_def or_default_def split: option.splits)

theorem isOverdue_iff_witness:
  "isOverdue sample_parse 1903780800001 sample_task \<and>
   \<not> isOverdue sample_parse 1903780800000 sample_task \<and>
   \<not> isOverdue sample_parse 1903780800001 (sample_task\<lparr>task_due_date := None\<rparr>) \<and>
   \<not> isOverdue sample_parse 1903780800001 (sample_task\<lparr>task_completed := True\<rparr>)"
  using isOverdue_iff [of sample_parse 1903780800001 sample_task]
    isOverdue_iff [of sample_parse 1903780800000 sample_task]
    isOverdue_iff [of sample_parse 1903780800001 "sample_task\<lparr>task_due_date := None\<rparr>"]
    isOverdue_iff [of sample_parse 1903780800001 "sample_task\<lparr>task_completed := True\<rparr>"]
  by (simp add: sample_task_def sample_parse_def)

lemma page_step_inv: "page_inv st \<Longrightarrow> page_inv (page_step st e)"
proof (cases e)
  case (ToggleClick taskId)
  assume "page_inv st"
  then show ?thesis using ToggleClick
    by (auto simp: page_inv_def handleTaskToggle_begin_def list_all_iff split: option.splits)
next
  case (ToggleAnswer i taskId out)
  assume "page_inv st"
  then show ?thesis using ToggleAnswer
    by (auto simp: page_inv_def handleTaskToggle_settle_def list_all_iff split: option.splits)
next
  case (PageUpdate f)
  assume "page_inv st"
  then show ?thesis using PageUpdate
    by (auto simp: page_inv_def reconcile_def task_list_initial_def list_all_iff split: option.splits)
qed

lemma page_foldl_inv: "page_inv st \<Longrightarrow> page_inv (foldl page_step st evs)"
  by (induction evs arbitrary: st) (simp_all add: page_step_inv)

lemma page_run_inv: "page_inv (page_run evs)"
  unfolding page_run_def
  by (rule page_foldl_inv) (simp add: page_inv_def page_loaded_def task_list_initial_def)

text \<open>
  C9, as the code has it. In every state the page can reach, the outstanding toggle
  requests are distinct: one mounted task list never has two outstanding requests for the
  same task. While a request sent by the mounted task list for a task is outstanding,
  calling \<open>handleTaskToggle\<close> for that task issues no request and changes nothing; with
  no such request outstanding it issues the one \<open>PATCH\<close>.
\<close>

theorem toggle_guard:
  "distinct (outstanding (page_run evs)) \<and>
   (task_list (page_run evs) = Some t \<and> (mounts (page_run evs), taskId) \<in> set (outstanding (page_run evs)) \<longrightarrow>
      handleTaskToggle_begin t taskId = (t, []) \<and>
      page_step (page_run evs) (ToggleClick taskId) = page_run evs) \<and>
   (task_list (page_run evs) = Some t \<and> (mounts (page_run evs), taskId) \<notin> set (outstanding (page_run evs)) \<longrightarrow>
      snd (handleTaskToggle_begin t taskId) = [toggle_request taskId])"
  using page_run_inv [of evs]
  by (auto simp: page_inv_def handleTaskToggle_begin_def)

theorem toggle_guard_witness:
  "outstanding (page_run [ToggleClick 3]) = [(1, 3)] \<and>
   page_step (page_run [ToggleClick 3]) (ToggleClick 3) = page_run [ToggleClick 3] \<and>
   outstanding (page_run [ToggleClick 3, ToggleClick 3, ToggleClick 5, ToggleClick 3]) = [(1, 3), (1, 5)] \<and>
   outstanding (page_run [ToggleClick 3, ToggleAnswer 1 3 (Rejected []), ToggleClick 3]) = [(1, 3)]"
  using toggle_guard [of "[ToggleClick 3]" "\<lparr>editingTaskId = None, processingTasks = {3}\<rparr>" 3]
  by (simp add: page_run_def page_loaded_def task_list_initial_def handleTaskToggle_begin_def
      handleTaskToggle_settle_def)

text \<open>
  The claim C9 as worded does not hold across a remount: a toggle of task 3 is sent, the
  page reloads its event (as it does after an RSVP), the task list is mounted afresh with
  an empty \<open>processingTasks\<close>, and a second toggle of task 3 is sent while the first is
  still outstanding.
\<close>

theorem toggle_remount_counterexample:
  "outstanding (page_run [ToggleClick 3, PageUpdate fetchEvent_begin,
      PageUpdate (\<lambda>s. fetchEvent_settle s (Resolved (Response 200 (Json sample_event)))),
      ToggleClick 3]) = [(1, 3), (2, 3)]"
  by (simp add: page_run_def page_loaded_def task_list_initial_def handleTaskToggle_begin_def
      reconcile_def TaskList_mounted_def EventDetailPage_render_def render_detail_container_def
      fetchEvent_begin_def fetchEvent_settle_def loaded_detail_def detail_initial_def ok_def
      or_default_def)

section \<open>Writing: the RSVP form\<close>

text \<open>The matcher \<open>emailRegex_test\<close> accepts exactly the strings the regular expression
  describes: \<open>a@b.c\<close> with \<open>a\<close>, \<open>b\<close> and \<open>c\<close> non-empty and free of white
  space and of \<open>@\<close>.\<close>

lemma has_inner_dot_split:
  "has_inner_dot d \<Longrightarrow> \<exists>b c. d = b @ 0x2E # c \<and> b \<noteq> [] \<and> c \<noteq> []"
proof (induction d rule: has_inner_dot.induct)
  case (1 a b c rest)
  show ?case
  proof (cases "b = 0x2E")
    case True
    then have "a # b # c # rest = [a] @ 0x2E # (c # rest)" by simp
    then show ?thesis by blast
  next
    case False
    with 1 obtain b' c' where bc: "b # c # rest = b' @ 0x2E # c'" "b' \<noteq> []" "c' \<noteq> []"
      by auto
    then have "a # b # c # rest = (a # b') @ 0x2E # c'" by simp
    then show ?thesis using bc(3) by blast
  qed
qed simp_all

lemma has_inner_dot_join:
  "b \<noteq> [] \<Longrightarrow> c \<noteq> [] \<Longrightarrow> has_inner_dot (b @ 0x2E # c)"
proof (induction b)
  case Nil
  then show ?case by simp
next
  case (Cons x b)
  show ?case
  proof (cases b)
    case Nil
    with Cons.prems show ?thesis by (cases c) simp_all
  next
    case (Cons y b')
    with Cons.IH Cons.prems have "has_inner_dot ((y # b') @ 0x2E # c)" by simp
    then show ?thesis using Cons by (cases "b' @ 0x2E # c") auto
  qed
qed

lemma emailRegex_test_iff:
  "emailRegex_test s =
     (\<exists>a b c. s = a @ [0x40] @ b @ [0x2E] @ c \<and> a \<noteq> [] \<and> b \<noteq> [] \<and> c \<noteq> [] \<and>
        list_all email_atom a \<and> list_all email_atom b \<and> list_all email_atom c)"
proof
  assume t: "emailRegex_test s"
  define a where "a = takeWhile email_atom s"
  define r where "r = dropWhile email_atom s"
  have s: "s = a @ r" by (simp add: a_def r_def)
  from t have a: "a \<noteq> []" by (simp add: emailRegex_test_def a_def Let_def)
  from t obtain d where r: "r = 0x40 # d" and d: "list_all email_atom d" "has_inner_dot d"
    by (auto simp: emailRegex_test_def r_def Let_def split: list.splits)
  from d(2) obtain b c where bc: "d = b @ 0x2E # c" "b \<noteq> []" "c \<noteq> []"
    using has_inner_dot_split by blast
  have "list_all email_atom a" by (simp add: a_def list_all_iff) (meson set_takeWhileD)
  moreover have "list_all email_atom b" "list_all email_atom c" using d(1) bc(1) by simp_all
  moreover have "s = a @ [0x40] @ b @ [0x2E] @ c" using s r bc(1) by simp
  ultimately show "\<exists>a b c. s = a @ [0x40] @ b @ [0x2E] @ c \<and> a \<noteq> [] \<and> b \<noteq> [] \<and> c \<noteq> [] \<and>
        list_all email_atom a \<and> list_all email_atom b \<and> list_all email_atom c"
    using a bc by blast
next
  assume "\<exists>a b c. s = a @ [0x40] @ b @ [0x2E] @ c \<and> a \<noteq> [] \<and> b \<noteq> [] \<and> c \<noteq> [] \<and>
        list_all email_atom a \<and> list_all email_atom b \<and> list_all email_atom c"
  then obtain a b c where s: "s = a @ 0x40 # b @ 0x2E # c"
    and ne: "a \<noteq> []" "b \<noteq> []" "c \<noteq> []"
    and at: "list_all email_atom a" "list_all email_atom b" "list_all email_atom c"
    by auto
  have na: "\<not> email_atom 0x40" by (simp add: email_atom_def)
  have dot: "email_atom 0x2E" by (simp add: email_atom_def is_space_def)
  have tw: "takeWhile email_atom s = a" using at(1) na
    by (simp add: s list_all_iff)
  have dw: "dropWhile email_atom s = 0x40 # b @ 0x2E # c" using at(1) na
    by (simp add: s list_all_iff)
  show "emailRegex_test s"
    using ne at dot has_inner_dot_join [OF ne(2) ne(3)]
    by (simp add: emailRegex_test_def tw dw)
qed

lemma validateForm_errors_guest_name:
  "validateForm_errors fd ''guest_name'' =
     (if trim (guest_name fd) = [] then Some ''Name is required''
      else if length (trim (guest_name fd)) < 2 then Some ''Name must be at least 2 characters''
      else None)"
  by (simp add: validateForm_errors_def Let_def)

lemma validateForm_errors_guest_email:
  "validateForm_errors fd ''guest_email'' =
     (if trim (guest_email fd) = [] then Some ''Email is required''
      else if \<not> emailRegex_test (trim (guest_email fd)) then Some ''Please enter a valid email address''
      else None)"
  by (simp add: validateForm_errors_def Let_def)

lemma validateForm_errors_rsvp_status:
  "validateForm_errors fd ''rsvp_status'' =
     (if rsvp_status fd = [] then Some ''Please select your RSVP status'' else None)"
  by (simp add: validateForm_errors_def Let_def)

lemma validateForm_errors_note_to_host:
  "validateForm_errors fd ''note_to_host'' =
     (if length (note_to_host fd) > 500 then Some ''Note must be less than 500 characters'' else None)"
  by (auto simp add: validateForm_errors_def Let_def)

lemma validateForm_errors_dom:
  "(dom (validateForm_errors fd) = {}) =
     (\<not> guest_name_violated fd \<and> \<not> guest_email_violated fd \<and> \<not> rsvp_status_violated fd \<and>
      \<not> note_to_host_violated fd)"
  by (auto simp add: validateForm_errors_def Let_def guest_name_violated_def guest_email_violated_def
      rsvp_status_violated_def note_to_host_violated_def split: if_splits)

lemma RSVPForm_blocked:
  "dom (validateForm_errors (formData s)) \<noteq> {} \<Longrightarrow>
   RSVPForm_handleSubmit toLowerCase eventId s out =
     (s\<lparr>submitError := None, submitSuccess := False,
        validationErrors := validateForm_errors (formData s)\<rparr>, [], [])"
  by (simp add: RSVPForm_handleSubmit_def validateForm_def Let_def)

lemma RSVPForm_sent:
  "dom (validateForm_errors (formData s)) = {} \<Longrightarrow>
   fst (snd (RSVPForm_handleSubmit toLowerCase eventId s out)) =
     [\<lparr> req_method = POST, req_url = ''http://localhost:5000/rsvps'',
        req_body = rsvpData toLowerCase eventId (formData s) \<rparr>]"
  by (simp add: RSVPForm_handleSubmit_def validateForm_def Let_def split: prod.splits)

text \<open>
  When the RSVP form breaks one of the rules of \<open>validateForm\<close> (name empty or shorter
  than two code units after trimming, email empty or not of the form \<open>a@b.c\<close>, no status
  selected, note longer than 500 code units), \<open>handleSubmit\<close> issues no request, and
  every field whose rule is broken has a non-empty message in \<open>validationErrors\<close>.
\<close>

lemma invalid_rsvp_blocked:
  assumes "guest_name_violated (formData s) \<or> guest_email_violated (formData s) \<or>
           rsvp_status_violated (formData s) \<or> note_to_host_violated (formData s)"
  shows "fst (snd (RSVPForm_handleSubmit toLowerCase eventId s out)) = [] \<and>
     (guest_name_violated (formData s) \<longrightarrow>
        (\<exists>m. validationErrors (fst (RSVPForm_handleSubmit toLowerCase eventId s out)) ''guest_name'' = Some m \<and> m \<noteq> [])) \<and>
     (guest_email_violated (formData s) \<longrightarrow>
        (\<exists>m. validationErrors (fst (RSVPForm_handleSubmit toLowerCase eventId s out)) ''guest_email'' = Some m \<and> m \<noteq> [])) \<and>
     (rsvp_status_violated (formData s) \<longrightarrow>
        (\<exists>m. validationErrors (fst (RSVPForm_handleSubmit toLowerCase eventId s out)) ''rsvp_status'' = Some m \<and> m \<noteq> [])) \<and>
     (note_to_host_violated (formData s) \<longrightarrow>
        (\<exists>m. validationErrors (fst (RSVPForm_handleSubmit toLowerCase eventId s out)) ''note_to_host'' = Some m \<and> m \<noteq> []))"
proof -
  from assms have "dom (validateForm_errors (formData s)) \<noteq> {}"
    unfolding validateForm_errors_dom by blast
  then have blocked: "RSVPForm_handleSubmit toLowerCase eventId s out =
     (s\<lparr>submitError := None, submitSuccess := False,
        validationErrors := validateForm_errors (formData s)\<rparr>, [], [])"
    by (rule RSVPForm_blocked)
  show ?thesis
    unfolding blocked
    by (simp add: validateForm_errors_guest_name validateForm_errors_guest_email
        validateForm_errors_rsvp_status validateForm_errors_note_to_host
        guest_name_violated_def guest_email_violated_def rsvp_status_violated_def
        note_to_host_violated_def)
qed

lemma invalid_rsvp_blocked_example:
  "fst (snd (RSVPForm_handleSubmit sample_toLowerCase 7 bad_form (Rejected []))) = [] \<and>
   validationErrors (fst (RSVPForm_handleSubmit sample_toLowerCase 7 bad_form (Rejected []))) ''guest_name''
     = Some ''Name must be at least 2 characters'' \<and>
   validationErrors (fst (RSVPForm_handleSubmit sample_toLowerCase 7 bad_form (Rejected []))) ''guest_email''
     = Some ''Please enter a valid email address'' \<and>
   validationErrors (fst (RSVPForm_handleSubmit sample_toLowerCase 7 bad_form (Rejected []))) ''rsvp_status''
     = Some ''Please select your RSVP status'' \<and>
   validationErrors (fst (RSVPForm_handleSubmit sample_toLowerCase 7 bad_form (Rejected []))) ''note_to_host''
     = Some ''Note must be less than 500 characters''"
proof -
  have v: "guest_name_violated (formData bad_form)"
    by (simp add: bad_form_def guest_name_violated_def trim_def is_space_def js_def)
  from v have "dom (validateForm_errors (formData bad_form)) \<noteq> {}"
    unfolding validateForm_errors_dom by blast
  then have b: "RSVPForm_handleSubmit sample_toLowerCase 7 bad_form (Rejected []) =
     (bad_form\<lparr>submitError := None, submitSuccess := False,
        validationErrors := validateForm_errors (formData bad_form)\<rparr>, [], [])"
    by (rule RSVPForm_blocked)
  show ?thesis
    unfolding b
    by (simp add: validateForm_errors_guest_name validateForm_errors_guest_email
        validateForm_errors_rsvp_status validateForm_errors_note_to_host
        bad_form_def trim_def is_space_def emailRegex_test_def email_atom_def js_def)
qed

lemma dropWhile_all_space: "list_all is_space p \<Longrightarrow> dropWhile is_space (p @ s) = dropWhile is_space s"
  by (induction p) simp_all

lemma dropWhile_space_nil: "list_all is_space p \<Longrightarrow> dropWhile is_space p = []"
  by (induction p) simp_all

lemma trim_padding:
  assumes "list_all is_space p" and "list_all is_space q"
  shows "trim (p @ e @ q) = trim e"
proof (cases "dropWhile is_space e = []")
  case True
  then have "list_all is_space e"
    by (simp add: list_all_iff)
  then have "list_all is_space (p @ e @ q)" using assms by simp
  then have a: "dropWhile is_space (p @ e @ q) = []" by (rule dropWhile_space_nil)
  show ?thesis unfolding trim_def a True by (rule refl)
next
  case False
  then have e: "dropWhile is_space (e @ q) = dropWhile is_space e @ q"
    by (auto simp: dropWhile_append)
  have "list_all is_space (rev q)" using assms(2) by (simp add: list_all_iff)
  then show ?thesis using assms(1)
    by (simp add: trim_def dropWhile_all_space e)
qed

lemma trim_core:
  "list_all is_space p \<Longrightarrow> list_all is_space q \<Longrightarrow> trim c = c \<Longrightarrow> trim (p @ c @ q) = c"
  by (simp add: trim_padding)

lemma RSVPForm_valid_email:
  assumes "rsvp_valid (formData s)"
  shows "fst (snd (RSVPForm_handleSubmit toLowerCase eventId s out)) =
       [\<lparr> req_method = POST, req_url = ''http://localhost:5000/rsvps'',
          req_body =
            [(''event_id'', JNum eventId),
             (''guest_name'', JStr (trim (guest_name (formData s)))),
             (''guest_email'', JStr (toLowerCase (trim (guest_email (formData s))))),
             (''rsvp_status'', JStr (rsvp_status (formData s))),
             (''note_to_host'', JStr (trim (note_to_host (formData s))))] \<rparr>]"
    and "submitted_email (fst (snd (RSVPForm_handleSubmit toLowerCase eventId s out))) =
       Some (JStr (toLowerCase (trim (guest_email (formData s)))))"
proof -
  from assms have "dom (validateForm_errors (formData s)) = {}"
    unfolding validateForm_errors_dom rsvp_valid_def by blast
  then have sent: "fst (snd (RSVPForm_handleSubmit toLowerCase eventId s out)) =
     [\<lparr> req_method = POST, req_url = ''http://localhost:5000/rsvps'',
        req_body = rsvpData toLowerCase eventId (formData s) \<rparr>]"
    by (rule RSVPForm_sent)
  show "fst (snd (RSVPForm_handleSubmit toLowerCase eventId s out)) =
       [\<lparr> req_method = POST, req_url = ''http://localhost:5000/rsvps'',
          req_body =
            [(''event_id'', JNum eventId),
             (''guest_name'', JStr (trim (guest_name (formData s)))),
             (''guest_email'', JStr (toLowerCase (trim (guest_email (formData s))))),
             (''rsvp_status'', JStr (rsvp_status (formData s))),
             (''note_to_host'', JStr (trim (note_to_host (formData s))))] \<rparr>]"
    unfolding sent by (simp add: rsvpData_def)
  show "submitted_email (fst (snd (RSVPForm_handleSubmit toLowerCase eventId s out))) =
       Some (JStr (toLowerCase (trim (guest_email (formData s)))))"
    unfolding sent by (simp add: submitted_email_def rsvpData_def)
qed

text \<open>
  C10. A valid RSVP submission issues one \<open>POST /rsvps\<close> whose \<open>guest_email\<close> is the
  entered email, trimmed and then lower-cased by the engine's \<open>toLowerCase\<close>, whatever
  that mapping is. Two valid forms whose emails are the same up to white space around
  them and up to case (their trimmed texts have the same lower-case form) submit the same
  \<open>guest_email\<close>.
\<close>

theorem rsvp_email_normalized:
  assumes "rsvp_valid (formData s)"
  shows "fst (snd (RSVPForm_handleSubmit toLowerCase eventId s out)) =
       [\<lparr> req_method = POST, req_url = ''http://localhost:5000/rsvps'',
          req_body =
            [(''event_id'', JNum eventId),
             (''guest_name'', JStr (trim (guest_name (formData s)))),
             (''guest_email'', JStr (toLowerCase (trim (guest_email (formData s))))),
             (''rsvp_status'', JStr (rsvp_status (formData s))),
             (''note_to_host'', JStr (trim (note_to_host (formData s))))] \<rparr>] \<and>
     submitted_email (fst (snd (RSVPForm_handleSubmit toLowerCase eventId s out))) =
       Some (JStr (toLowerCase (trim (guest_email (formData s))))) \<and>
     (rsvp_valid (formData s') \<and>
      guest_email (formData s) = p @ c @ q \<and> guest_email (formData s') = p' @ c' @ q' \<and>
      list_all is_space p \<and> list_all is_space q \<and> list_all is_space p' \<and> list_all is_space q' \<and>
      trim c = c \<and> trim c' = c' \<and> toLowerCase c' = toLowerCase c \<longrightarrow>
        submitted_email (fst (snd (RSVPForm_handleSubmit toLowerCase eventId' s' out'))) =
        submitted_email (fst (snd (RSVPForm_handleSubmit toLowerCase eventId s out))))"
proof -
  have same: "rsvp_valid (formData s') \<and>
      guest_email (formData s) = p @ c @ q \<and> guest_email (formData s') = p' @ c' @ q' \<and>
      list_all is_space p \<and> list_all is_space q \<and> list_all is_space p' \<and> list_all is_space q' \<and>
      trim c = c \<and> trim c' = c' \<and> toLowerCase c' = toLowerCase c \<longrightarrow>
        submitted_email (fst (snd (RSVPForm_handleSubmit toLowerCase eventId' s' out'))) =
        submitted_email (fst (snd (RSVPForm_handleSubmit toLowerCase eventId s out)))"
  proof
    assume h: "rsvp_valid (formData s') \<and>
      guest_email (formData s) = p @ c @ q \<and> guest_email (formData s') = p' @ c' @ q' \<and>
      list_all is_space p \<and> list_all is_space q \<and> list_all is_space p' \<and> list_all is_space q' \<and>
      trim c = c \<and> trim c' = c' \<and> toLowerCase c' = toLowerCase c"
    then have t: "trim (guest_email (formData s)) = c" and t': "trim (guest_email (formData s')) = c'"
      by (simp_all add: trim_core)
    from h have v': "rsvp_valid (formData s')" by blast
    show "submitted_email (fst (snd (RSVPForm_handleSubmit toLowerCase eventId' s' out'))) =
        submitted_email (fst (snd (RSVPForm_handleSubmit toLowerCase eventId s out)))"
      unfolding RSVPForm_valid_email(2) [OF assms] RSVPForm_valid_email(2) [OF v'] t t'
      using h by simp
  qed
  from RSVPForm_valid_email [OF assms, of toLowerCase eventId out] same show ?thesis by blast
qed

lemma upper_form_valid: "rsvp_valid (formData upper_form)"
  by (simp add: rsvp_valid_def upper_form_def guest_name_violated_def guest_email_violated_def
      rsvp_status_violated_def note_to_host_violated_def trim_def is_space_def emailRegex_test_def
      email_atom_def js_def)

lemma padded_form_valid: "rsvp_valid (formData padded_form)"
  by (simp add: rsvp_valid_def padded_form_def guest_name_violated_def guest_email_violated_def
      rsvp_status_violated_def note_to_host_violated_def trim_def is_space_def emailRegex_test_def
      email_atom_def js_def)

theorem rsvp_email_normalized_witness:
  "submitted_email (fst (snd (RSVPForm_handleSubmit sample_toLowerCase 7 upper_form (Rejected [])))) =
     Some (JStr ([0xE0] @ js ''nn@example.com'')) \<and>
   submitted_email (fst (snd (RSVPForm_handleSubmit sample_toLowerCase 7 padded_form (Rejected [])))) =
     Some (JStr ([0xE0] @ js ''nn@example.com''))"
proof -
  have up: "guest_email (formData upper_form) = [] @ ([0xC0] @ js ''nn@Example.COM'') @ []"
    by (simp add: upper_form_def)
  have pad: "guest_email (formData padded_form) = [0xA0, 0x20] @ ([0xE0] @ js ''nn@example.com'') @ [0x20]"
    by (simp add: padded_form_def js_def)
  have sp: "list_all is_space []" "list_all is_space [0xA0, 0x20]" "list_all is_space [0x20]"
    by (simp_all add: is_space_def)
  have core: "trim ([0xC0] @ js ''nn@Example.COM'') = [0xC0] @ js ''nn@Example.COM''"
    "trim ([0xE0] @ js ''nn@example.com'') = [0xE0] @ js ''nn@example.com''"
    by (simp_all add: trim_def is_space_def js_def)
  have low: "sample_toLowerCase ([0xE0] @ js ''nn@example.com'') =
      sample_toLowerCase ([0xC0] @ js ''nn@Example.COM'')"
    by (simp add: sample_toLowerCase_def js_def)
  have val: "sample_toLowerCase (trim (guest_email (formData upper_form))) = [0xE0] @ js ''nn@example.com''"
    by (simp add: upper_form_def sample_toLowerCase_def trim_def is_space_def js_def)
  have u: "submitted_email (fst (snd (RSVPForm_handleSubmit sample_toLowerCase 7 upper_form (Rejected [])))) =
     Some (JStr ([0xE0] @ js ''nn@example.com''))"
    using rsvp_email_normalized [OF upper_form_valid, of sample_toLowerCase 7 "Rejected []"]
    unfolding val by blast
  have "submitted_email (fst (snd (RSVPForm_handleSubmit sample_toLowerCase 7 padded_form (Rejected [])))) =
     submitted_email (fst (snd (RSVPForm_handleSubmit sample_toLowerCase 7 upper_form (Rejected []))))"
    using rsvp_email_normalized [OF upper_form_valid, of sample_toLowerCase 7 "Rejected []" padded_form
        "[]" "[0xC0] @ js ''nn@Example.COM''" "[]"
        "[0xA0, 0x20]" "[0xE0] @ js ''nn@example.com''" "[0x20]" 7 "Rejected []"]
      padded_form_valid up pad sp core low
    by blast
  with u show ?thesis by simp
qed

section \<open>Writing: the forms validated by a schema\<close>

lemma Formik_submitForm_valid:
  "dom (validate (formik_values s)) = {} \<Longrightarrow>
   Formik_submitForm validate onSubmit s out =
     onSubmit (s\<lparr>formik_errors := validate (formik_values s), formik_isSubmitting := True\<rparr>) out"
  by (simp add: Formik_submitForm_def Let_def)

lemma Formik_submitForm_invalid:
  "dom (validate (formik_values s)) \<noteq> {} \<Longrightarrow>
   Formik_submitForm validate onSubmit s out =
     (s\<lparr>formik_errors := validate (formik_values s), formik_isSubmitting := False\<rparr>, [], [])"
  by (simp add: Formik_submitForm_def Let_def)

lemma TaskValidationSchema_lookup:
  "TaskValidationSchema schema_parse now v ''description'' =
     yup_string TaskValidationSchema_description (description v)"
  "TaskValidationSchema schema_parse now v ''due_date'' =
     yup_date schema_parse (TaskValidationSchema_due_date now) (due_date v)"
  by (simp_all add: TaskValidationSchema_def)

lemma NewTaskForm_handleSubmit_requests:
  "NewTaskForm_taskData D eventId (formik_values s) = Got data \<Longrightarrow>
   fst (snd (NewTaskForm_handleSubmit D eventId s out)) =
     [\<lparr> req_method = POST, req_url = ''http://localhost:5000/tasks'', req_body = data \<rparr>]"
  by (simp add: NewTaskForm_handleSubmit_def Let_def split: prod.splits)


lemma NewEventForm_handleSubmit_requests:
  "eventData D (formik_values s) = Got data \<Longrightarrow>
   fst (snd (NewEventForm_handleSubmit D s out)) =
     [\<lparr> req_method = POST, req_url = ''http://localhost:5000/events'', req_body = data \<rparr>]"
  by (simp add: NewEventForm_handleSubmit_def Let_def split: attempt.splits)


lemma EditEventForm_handleSubmit_requests:
  "eventData D (formik_values s) = Got data \<Longrightarrow>
   fst (snd (EditEventForm_handleSubmit D eventId s out)) =
     [\<lparr> req_method = PATCH, req_url = ''http://localhost:5000/events/'' @ number_toString eventId,
        req_body = data \<rparr>]"
  by (simp add: EditEventForm_handleSubmit_def Let_def split: attempt.splits)

lemma EditTaskForm_handleSubmit_requests:
  "fst (snd (EditTaskForm_handleSubmit taskId eventId s out)) =
     [\<lparr> req_method = PATCH, req_url = ''http://localhost:5000/tasks/'' @ number_toString taskId,
        req_body = EditTaskForm_taskData eventId (formik_values s) \<rparr>]"
  by (simp add: EditTaskForm_handleSubmit_def Let_def split: attempt.splits)

text \<open>
  What a submission that passes its schema sends, when the browser's \<open>Date\<close> reads the
  date field: one \<open>POST /tasks\<close> or \<open>POST /events\<close> from the forms that create, one
  \<open>PATCH\<close> from the forms that edit (the edit-task form sends the date field as typed
  and does not convert it), with the task's description and assignee trimmed.
\<close>

lemma NewTaskForm_valid_request:
  assumes "dom (TaskValidationSchema schema_parse now (formik_values s)) = {}"
    and "due_date (formik_values s) = [] \<or> date_parse D (due_date (formik_values s)) = Some t"
  shows "fst (snd (NewTaskForm_submit D schema_parse now eventId s out)) =
     [\<lparr> req_method = POST, req_url = ''http://localhost:5000/tasks'',
        req_body =
          [(''event_id'', JNum eventId),
           (''description'', JStr (trim (description (formik_values s)))),
           (''assigned_to'', JStr (trim (assigned_to (formik_values s)))),
           (''priority'', JStr (priority (formik_values s))),
           (''completed'', JBool (completed (formik_values s)))] @
          (if due_date (formik_values s) = [] then []
           else [(''due_date'', JStr (date_toISOString D t))]) \<rparr>]"
proof -
  have d: "NewTaskForm_taskData D eventId (formik_values s) =
      Got ([(''event_id'', JNum eventId),
            (''description'', JStr (trim (description (formik_values s)))),
            (''assigned_to'', JStr (trim (assigned_to (formik_values s)))),
            (''priority'', JStr (priority (formik_values s))),
            (''completed'', JBool (completed (formik_values s)))] @
           (if due_date (formik_values s) = [] then []
            else [(''due_date'', JStr (date_toISOString D t))]))"
    using assms(2) by (auto simp: NewTaskForm_taskData_def)
  show ?thesis
    unfolding NewTaskForm_submit_def
      Formik_submitForm_valid [where validate = "TaskValidationSchema schema_parse now", OF assms(1)]
    by (rule NewTaskForm_handleSubmit_requests) (simp add: d)
qed

lemma NewEventForm_valid_request:
  assumes "dom (Event_validationSchema schema_parse now (formik_values s)) = {}"
    and "date_parse D (form_date (formik_values s)) = Some t"
  shows "fst (snd (NewEventForm_submit D schema_parse now s out)) =
     [\<lparr> req_method = POST, req_url = ''http://localhost:5000/events'',
        req_body =
          [(''title'', JStr (form_title (formik_values s))),
           (''description'', JStr (form_description (formik_values s))),
           (''location'', JStr (form_location (formik_values s))),
           (''date'', JStr (date_toISOString D t))] \<rparr>]"
  unfolding NewEventForm_submit_def
    Formik_submitForm_valid [where validate = "Event_validationSchema schema_parse now", OF assms(1)]
  by (rule NewEventForm_handleSubmit_requests) (simp add: eventData_def assms(2))

lemma EditEventForm_valid_request:
  assumes "dom (Event_validationSchema schema_parse now (formik_values s)) = {}"
    and "date_parse D (form_date (formik_values s)) = Some t"
  shows "fst (snd (EditEventForm_submit D schema_parse now eventId s out)) =
     [\<lparr> req_method = PATCH, req_url = ''http://localhost:5000/events/'' @ number_toString eventId,
        req_body =
          [(''title'', JStr (form_title (formik_values s))),
           (''description'', JStr (form_description (formik_values s))),
           (''location'', JStr (form_location (formik_values s))),
           (''date'', JStr (date_toISOString D t))] \<rparr>]"
  unfolding EditEventForm_submit_def
    Formik_submitForm_valid [where validate = "Event_validationSchema schema_parse now", OF assms(1)]
  by (rule EditEventForm_handleSubmit_requests) (simp add: eventData_def assms(2))

lemma EditTaskForm_valid_request:
  assumes "dom (EditTask_validationSchema schema_parse now (formik_values s)) = {}"
  shows "fst (snd (EditTaskForm_submit schema_parse now taskId eventId s out)) =
     [\<lparr> req_method = PATCH, req_url = ''http://localhost:5000/tasks/'' @ number_toString taskId,
        req_body =
          [(''description'', JStr (trim (edit_description (formik_values s)))),
           (''priority'', JStr (edit_priority (formik_values s))),
           (''assigned_to'',
              (if trim (edit_assigned_to (formik_values s)) = [] then JNull
               else JStr (trim (edit_assigned_to (formik_values s))))),
           (''due_date'',
              (if edit_due_date (formik_values s) = [] then JNull
               else JStr (edit_due_date (formik_values s)))),
           (''event_id'', JNum eventId)] \<rparr>]"
  unfolding EditTaskForm_submit_def
    Formik_submitForm_valid [where validate = "EditTask_validationSchema schema_parse now", OF assms]
    EditTaskForm_handleSubmit_requests
  by (simp add: EditTaskForm_taskData_def)

lemma good_task_form_valid:
  "dom (TaskValidationSchema sample_schema_parse module_loaded_at (formik_values good_task_form)) = {}"
  by (simp add: good_task_form_def TaskValidationSchema_def yup_string_def yup_date_def
      TaskValidationSchema_description_def TaskValidationSchema_assigned_to_def
      TaskValidationSchema_priority_def TaskValidationSchema_due_date_def
      sample_schema_parse_def sample_date_parse_def module_loaded_at_def js_def)

lemma good_task_form_request:
  "fst (snd (NewTaskForm_submit sample_date sample_schema_parse module_loaded_at 7 good_task_form out)) =
     [\<lparr> req_method = POST, req_url = ''http://localhost:5000/tasks'',
        req_body = [(''event_id'', JNum 7), (''description'', JStr (js ''Order the cake'')),
                    (''assigned_to'', JStr (js ''Bob'')), (''priority'', JStr (js ''High'')),
                    (''completed'', JBool False),
                    (''due_date'', JStr (js ''2030-04-30T12:00:00.000Z''))] \<rparr>]"
proof -
  have p: "due_date (formik_values good_task_form) = [] \<or>
      date_parse sample_date (due_date (formik_values good_task_form)) = Some 1903780800000"
    by (simp add: good_task_form_def sample_date_def sample_date_parse_def)
  show ?thesis
    unfolding NewTaskForm_valid_request [OF good_task_form_valid p]
    by (simp add: good_task_form_def sample_date_def trim_def is_space_def js_def)
qed

text \<open>
  C2. The claim holds of the rules a form checks at submission, and the code breaks it for
  the date rule of the forms validated by a schema: the bound of \<open>min(new Date(), ...)\<close>
  is the instant at which the schema was built, for the new-task form the loading of the
  module. A due date ten minutes after that instant, in a form submitted half an hour
  after it, is in the past at submission; the schema reports no error for it and the
  \<open>POST /tasks\<close> is sent.
\<close>

theorem stale_due_date_sent:
  "date_parse sample_date (due_date (formik_values stale_task_form)) = Some 1893456600000 \<and>
   module_loaded_at \<le> 1893456600000 \<and> 1893456600000 < submitted_at \<and>
   TaskValidationSchema sample_schema_parse module_loaded_at (formik_values stale_task_form) ''due_date'' = None \<and>
   fst (snd (NewTaskForm_submit sample_date sample_schema_parse module_loaded_at 7 stale_task_form out)) =
     [\<lparr> req_method = POST, req_url = ''http://localhost:5000/tasks'',
        req_body = [(''event_id'', JNum 7), (''description'', JStr (js ''Order the cake'')),
                    (''assigned_to'', JStr []), (''priority'', JStr (js ''Medium'')),
                    (''completed'', JBool False),
                    (''due_date'', JStr (js ''2030-01-01T00:10:00.000Z''))] \<rparr>]"
proof -
  have v: "dom (TaskValidationSchema sample_schema_parse module_loaded_at (formik_values stale_task_form)) = {}"
    by (simp add: stale_task_form_def TaskValidationSchema_def yup_string_def yup_date_def
        TaskValidationSchema_description_def TaskValidationSchema_assigned_to_def
        TaskValidationSchema_priority_def TaskValidationSchema_due_date_def
        sample_schema_parse_def sample_date_parse_def module_loaded_at_def js_def)
  have p: "date_parse sample_date (due_date (formik_values stale_task_form)) = Some 1893456600000"
    by (simp add: stale_task_form_def sample_date_def sample_date_parse_def js_def)
  have d: "NewTaskForm_taskData sample_date 7 (formik_values stale_task_form) =
      Got [(''event_id'', JNum 7), (''description'', JStr (js ''Order the cake'')),
           (''assigned_to'', JStr []), (''priority'', JStr (js ''Medium'')),
           (''completed'', JBool False),
           (''due_date'', JStr (js ''2030-01-01T00:10:00.000Z''))]"
    by (simp add: NewTaskForm_taskData_def stale_task_form_def sample_date_def sample_date_parse_def
        trim_def is_space_def js_def)
  have r: "fst (snd (NewTaskForm_submit sample_date sample_schema_parse module_loaded_at 7 stale_task_form out)) =
     [\<lparr> req_method = POST, req_url = ''http://localhost:5000/tasks'',
        req_body = [(''event_id'', JNum 7), (''description'', JStr (js ''Order the cake'')),
                    (''assigned_to'', JStr []), (''priority'', JStr (js ''Medium'')),
                    (''completed'', JBool False),
                    (''due_date'', JStr (js ''2030-01-01T00:10:00.000Z''))] \<rparr>]"
    unfolding NewTaskForm_submit_def
      Formik_submitForm_valid [where validate = "TaskValidationSchema sample_schema_parse module_loaded_at", OF v]
    by (rule NewTaskForm_handleSubmit_requests) (simp add: d)
  have e: "TaskValidationSchema sample_schema_parse module_loaded_at (formik_values stale_task_form) ''due_date'' = None"
    using v by simp
  have t: "module_loaded_at \<le> 1893456600000 \<and> 1893456600000 < submitted_at"
    by (simp add: module_loaded_at_def submitted_at_def)
  from p t e r show ?thesis by blast
qed


lemma yup_description_4:
  "length d = 4 \<Longrightarrow> yup_string TaskValidationSchema_description d =
     Some (Message ''Description must be at least 5 characters'')"
  by (auto simp: yup_string_def TaskValidationSchema_description_def)

text \<open>
  C6. With a description of four characters the new-task form is not submitted: the schema
  rejects the description with exactly \<open>Description must be at least 5 characters\<close>,
  that message is the field's error in the form, and no request is made (so no
  \<open>POST /tasks\<close>), whatever the other fields hold.
\<close>

theorem short_description_blocked:
  assumes "length (description (formik_values s)) = 4"
  shows "TaskValidationSchema schema_parse now (formik_values s) ''description'' =
       Some (Message ''Description must be at least 5 characters'') \<and>
     fst (snd (NewTaskForm_submit D schema_parse now eventId s out)) = [] \<and>
     formik_errors (fst (NewTaskForm_submit D schema_parse now eventId s out)) ''description'' =
       Some (Message ''Description must be at least 5 characters'')"
proof -
  have e: "TaskValidationSchema schema_parse now (formik_values s) ''description'' =
       Some (Message ''Description must be at least 5 characters'')"
    using assms by (simp add: TaskValidationSchema_lookup yup_description_4)
  then have "dom (TaskValidationSchema schema_parse now (formik_values s)) \<noteq> {}"
    by auto
  then have "NewTaskForm_submit D schema_parse now eventId s out =
     (s\<lparr>formik_errors := TaskValidationSchema schema_parse now (formik_values s),
        formik_isSubmitting := False\<rparr>, [], [])"
    unfolding NewTaskForm_submit_def by (rule Formik_submitForm_invalid)
  with e show ?thesis by simp
qed

theorem short_description_blocked_witness:
  "fst (snd (NewTaskForm_submit sample_date sample_schema_parse 0 7 short_task_form (Rejected []))) = [] \<and>
   formik_errors (fst (NewTaskForm_submit sample_date sample_schema_parse 0 7 short_task_form (Rejected [])))
       ''description'' =
     Some (Message ''Description must be at least 5 characters'')"
  using short_description_blocked [of short_task_form sample_schema_parse 0 sample_date 7 "Rejected []"]
  by (simp add: short_task_form_def task_form_initial_def task_initialValues_def js_def)

end
